theory Spec2Isabelle
  imports Complex_Main
begin

section \<open>Tables\<close>

text \<open>
  A pandas cell is null (NaN, None, NaT), a string, a number or a parsed timestamp
  (nanoseconds since the epoch). Numbers are modelled as reals: the integer 5 and the
  float 5.0 are the same cell, as they are for pandas' comparisons, and rounding of
  float64 arithmetic is not modelled.
\<close>

datatype cell = Null | Str string | Num real | Stamp int

text \<open>
  A row is read by column name; a frame lists its column names in order and its rows in
  order. A row is only ever read at the names in \<open>columns\<close>: every access by a name that
  is not a column raises \<open>KeyError\<close>.
\<close>

type_synonym row = "string \<Rightarrow> cell"

record frame =
  columns :: "string list"
  rows :: "row list"

datatype error = KeyError string

definition bind :: "error + 'a \<Rightarrow> ('a \<Rightarrow> error + 'b) \<Rightarrow> error + 'b" where
  "bind m f = (case m of Inl e \<Rightarrow> Inl e | Inr x \<Rightarrow> f x)"

text \<open>The cells of a frame, row by row, in column order.\<close>

definition cells :: "frame \<Rightarrow> cell list list" where
  "cells df = map (\<lambda>r. map r (columns df)) (rows df)"

text \<open>\<open>DataFrame\<close> built from column names and rows of values, as \<open>read_csv\<close> gives it.\<close>

definition row_of :: "string list \<Rightarrow> cell list \<Rightarrow> row" where
  "row_of cs vs = (\<lambda>c. case map_of (zip cs vs) c of Some v \<Rightarrow> v | None \<Rightarrow> Null)"

definition DataFrame :: "string list \<Rightarrow> cell list list \<Rightarrow> frame" where
  "DataFrame cs vss = \<lparr>columns = cs, rows = map (row_of cs) vss\<rparr>"

text \<open>\<open>df[cols]\<close>: the listed columns in the listed order; \<open>KeyError\<close> at the first name
  that is not a column.\<close>

definition project :: "string list \<Rightarrow> row \<Rightarrow> row" where
  "project cs r = (\<lambda>c. if c \<in> set cs then r c else Null)"

definition select :: "frame \<Rightarrow> string list \<Rightarrow> error + frame" where
  "select df cs =
     (case filter (\<lambda>c. c \<notin> set (columns df)) cs of
        c # _ \<Rightarrow> Inl (KeyError c)
      | [] \<Rightarrow> Inr \<lparr>columns = cs, rows = map (project cs) (rows df)\<rparr>)"

text \<open>\<open>df[mask]\<close>: the rows at which the boolean series holds.\<close>

definition where_rows :: "frame \<Rightarrow> (row \<Rightarrow> bool) \<Rightarrow> frame" where
  "where_rows df p = df\<lparr>rows := filter p (rows df)\<rparr>"

text \<open>\<open>df[col] = series\<close>: an existing column keeps its place, a new one goes last. The
  series is computed from the frame's own rows, so it is given row by row.\<close>

definition assign :: "frame \<Rightarrow> string \<Rightarrow> (row \<Rightarrow> cell) \<Rightarrow> frame" where
  "assign df col f =
     \<lparr>columns = (if col \<in> set (columns df) then columns df else columns df @ [col]),
      rows = map (\<lambda>r. r(col := f r)) (rows df)\<rparr>"

text \<open>\<open>self.data[name]\<close>: the dataset store is a dict from dataset name to frame.\<close>

record order =
  data :: "string \<rightharpoonup> frame"

definition getitem :: "(string \<rightharpoonup> frame) \<Rightarrow> string \<Rightarrow> error + frame" where
  "getitem d name = (case d name of None \<Rightarrow> Inl (KeyError name) | Some df \<Rightarrow> Inr df)"

text \<open>\<open>df[col]\<close> as a series: the column's cells in row order.\<close>

definition series :: "frame \<Rightarrow> string \<Rightarrow> cell list" where
  "series df col = map (\<lambda>r. r col) (rows df)"

text \<open>\<open>df.rename(columns = m)\<close>: the columns keep their places and cells, under new names.\<close>

definition rename :: "frame \<Rightarrow> (string \<times> string) list \<Rightarrow> frame" where
  "rename df m =
     (let new = (\<lambda>c. case map_of m c of Some n \<Rightarrow> n | None \<Rightarrow> c)
      in \<lparr>columns = map new (columns df),
          rows = map (\<lambda>r c'. case find (\<lambda>c. new c = c') (columns df) of
                                   Some c \<Rightarrow> r c | None \<Rightarrow> Null) (rows df)\<rparr>)"

text \<open>\<open>df.dropna()\<close>: the rows with no null cell in any column.\<close>

definition dropna :: "frame \<Rightarrow> frame" where
  "dropna df = where_rows df (\<lambda>r. list_all (\<lambda>c. r c \<noteq> Null) (columns df))"

subsection \<open>Left merge on one key\<close>

text \<open>
  \<open>left.merge(right, on = key, how = "left")\<close>: every left row, in order, once for each
  right row with an equal key (in the right frame's order), or once with nulls in the
  right frame's columns when there is none. Null keys match null keys, as in pandas.
  The frames this program merges share no column but the key (each is a selection of
  fixed columns), so the suffixes pandas gives to shared column names never arise.
\<close>

definition merge_left :: "frame \<Rightarrow> frame \<Rightarrow> string \<Rightarrow> error + frame" where
  "merge_left left right on =
     (if on \<notin> set (columns left) \<or> on \<notin> set (columns right) then Inl (KeyError on)
      else
        let rc = filter (\<lambda>c. c \<noteq> on) (columns right)
        in Inr \<lparr>columns = columns left @ rc,
                rows = concat (map (\<lambda>a.
                  case filter (\<lambda>b. b on = a on) (rows right) of
                    [] \<Rightarrow> [\<lambda>c. if c \<in> set rc then Null else a c]
                  | ms \<Rightarrow> map (\<lambda>b c. if c \<in> set rc then b c else a c) ms) (rows left))\<rparr>)"

subsection \<open>Group by one key\<close>

text \<open>
  \<open>groupby(key)\<close> drops the rows with a null key and sorts the groups by key: strings
  by code point, numbers and timestamps by value.
\<close>

fun str_le :: "string \<Rightarrow> string \<Rightarrow> bool" where
  "str_le [] _ = True"
| "str_le (x # xs) [] = False"
| "str_le (x # xs) (y # ys) =
     (if x = y then str_le xs ys else (of_char x :: nat) < of_char y)"

fun cell_le :: "cell \<Rightarrow> cell \<Rightarrow> bool" where
  "cell_le (Str a) (Str b) = str_le a b"
| "cell_le (Num a) (Num b) = (a \<le> b)"
| "cell_le (Stamp a) (Stamp b) = (a \<le> b)"
| "cell_le Null _ = True"
| "cell_le _ Null = False"
| "cell_le (Num _) _ = True"
| "cell_le _ (Num _) = False"
| "cell_le (Stamp _) _ = True"
| "cell_le _ (Stamp _) = False"

fun insort_cell :: "cell \<Rightarrow> cell list \<Rightarrow> cell list" where
  "insort_cell k [] = [k]"
| "insort_cell k (x # xs) = (if cell_le k x then k # x # xs else x # insort_cell k xs)"

definition sort_cells :: "cell list \<Rightarrow> cell list" where
  "sort_cells ks = foldr insort_cell ks []"

definition group_keys :: "frame \<Rightarrow> string \<Rightarrow> cell list" where
  "group_keys df key = sort_cells (remdups (filter (\<lambda>k. k \<noteq> Null) (series df key)))"

definition group_rows :: "frame \<Rightarrow> string \<Rightarrow> cell \<Rightarrow> row list" where
  "group_rows df key k = filter (\<lambda>r. r key = k) (rows df)"

text \<open>
  \<open>df.groupby(key)...reset_index()\<close>: one row per group, the key first, then one
  column per aggregate, each computed from the rows of the group.
\<close>

definition groupby_agg :: "frame \<Rightarrow> string \<Rightarrow> (string \<times> (row list \<Rightarrow> cell)) list \<Rightarrow> frame" where
  "groupby_agg df key aggs =
     DataFrame (key # map fst aggs)
       (map (\<lambda>k. k # map (\<lambda>(c, f). f (group_rows df key k)) aggs) (group_keys df key))"

text \<open>The numbers of a column within a group; nulls are skipped by every aggregate.\<close>

definition nums :: "string \<Rightarrow> row list \<Rightarrow> real list" where
  "nums col g = concat (map (\<lambda>r. case r col of Num x \<Rightarrow> [x] | _ \<Rightarrow> []) g)"

definition agg_size :: "row list \<Rightarrow> cell" where
  "agg_size g = Num (real (length g))"

definition agg_nunique :: "string \<Rightarrow> row list \<Rightarrow> cell" where
  "agg_nunique col g = Num (real (length (remdups (filter (\<lambda>v. v \<noteq> Null) (map (\<lambda>r. r col) g)))))"

definition agg_sum :: "string \<Rightarrow> row list \<Rightarrow> cell" where
  "agg_sum col g = Num (sum_list (nums col g))"

definition agg_mean :: "string \<Rightarrow> row list \<Rightarrow> cell" where
  "agg_mean col g =
     (let xs = nums col g in if xs = [] then Null else Num (sum_list xs / real (length xs)))"

section \<open>Wait-time extractor\<close>

text \<open>
  \<open>pandas.to_datetime(series, errors = "coerce")\<close> is a library function: \<open>parse\<close>
  stands for its parser, which gives for a column and one of its values the instant in
  nanoseconds, or nothing where the value does not parse; with \<open>coerce\<close> such a value
  becomes NaT.
\<close>

type_synonym parser = "cell list \<Rightarrow> cell \<Rightarrow> int option"

definition to_datetime :: "parser \<Rightarrow> cell list \<Rightarrow> cell \<Rightarrow> cell" where
  "to_datetime parse column c = (case parse column c of Some t \<Rightarrow> Stamp t | None \<Rightarrow> Null)"

text \<open>Difference of two datetime columns: a timedelta in nanoseconds, NaT where either
  side is NaT.\<close>

fun sub_datetime :: "cell \<Rightarrow> cell \<Rightarrow> int option" where
  "sub_datetime (Stamp a) (Stamp b) = Some (a - b)"
| "sub_datetime _ _ = None"

definition total_seconds :: "int option \<Rightarrow> cell" where
  "total_seconds d = (case d of Some ns \<Rightarrow> Num (real_of_int ns / 1000000000) | None \<Rightarrow> Null)"

text \<open>Arithmetic and comparison of float columns; NaN propagates and compares false.\<close>

definition div_num :: "cell \<Rightarrow> real \<Rightarrow> cell" where
  "div_num c d = (case c of Num x \<Rightarrow> Num (x / d) | _ \<Rightarrow> Null)"

fun sub_num :: "cell \<Rightarrow> cell \<Rightarrow> cell" where
  "sub_num (Num a) (Num b) = Num (a - b)"
| "sub_num _ _ = Null"

definition isna :: "cell \<Rightarrow> bool" where
  "isna c = (c = Null)"

definition gt_num :: "cell \<Rightarrow> real \<Rightarrow> bool" where
  "gt_num c v = (case c of Num x \<Rightarrow> x > v | _ \<Rightarrow> False)"

definition np_where :: "bool \<Rightarrow> cell \<Rightarrow> cell \<Rightarrow> cell" where
  "np_where b x y = (if b then x else y)"

definition get_wait_time :: "parser \<Rightarrow> order \<Rightarrow> bool \<Rightarrow> error + frame" where
  "get_wait_time parse self is_delivered =
     bind (getitem (data self) ''orders'') (\<lambda>orders.
     bind (select orders [''order_id'', ''order_status'', ''order_purchase_timestamp'',
             ''order_delivered_customer_date'', ''order_estimated_delivery_date'']) (\<lambda>df.
       let df = (if is_delivered
                 then where_rows df (\<lambda>r. r ''order_status'' = Str ''delivered'') else df);
           df = foldl (\<lambda>df col. assign df col (\<lambda>r. to_datetime parse (series df col) (r col))) df
                  [''order_purchase_timestamp'', ''order_delivered_customer_date'',
                   ''order_estimated_delivery_date''];
           df = assign df ''wait_time'' (\<lambda>r. div_num (total_seconds
                  (sub_datetime (r ''order_delivered_customer_date'')
                     (r ''order_purchase_timestamp''))) 86400);
           df = assign df ''expected_wait_time'' (\<lambda>r. div_num (total_seconds
                  (sub_datetime (r ''order_estimated_delivery_date'')
                     (r ''order_purchase_timestamp''))) 86400);
           delay = (\<lambda>r. sub_num (r ''wait_time'') (r ''expected_wait_time''));
           df = assign df ''delay_vs_expected'' (\<lambda>r.
                  np_where (isna (delay r)) Null (np_where (gt_num (delay r) 0) (delay r) (Num 0)))
       in select df [''order_id'', ''wait_time'', ''expected_wait_time'', ''delay_vs_expected'',
                     ''order_status'']))"

section \<open>Review extractor\<close>

text \<open>\<open>(series == v).astype(int)\<close>: 1 where the cell equals the number, else 0; a null
  cell equals nothing.\<close>

definition eq_int :: "cell \<Rightarrow> real \<Rightarrow> cell" where
  "eq_int c v = (if c = Num v then Num 1 else Num 0)"

definition get_review_score :: "order \<Rightarrow> error + frame" where
  "get_review_score self =
     bind (getitem (data self) ''order_reviews'') (\<lambda>reviews.
     bind (select reviews [''order_id'', ''review_score'']) (\<lambda>df.
       let df = assign df ''dim_is_five_star'' (\<lambda>r. eq_int (r ''review_score'') 5);
           df = assign df ''dim_is_one_star'' (\<lambda>r. eq_int (r ''review_score'') 1)
       in select df [''order_id'', ''dim_is_five_star'', ''dim_is_one_star'', ''review_score'']))"

section \<open>Item-count, seller-count and price/freight extractors\<close>

definition get_number_items :: "order \<Rightarrow> error + frame" where
  "get_number_items self =
     bind (getitem (data self) ''order_items'') (\<lambda>order_items.
     bind (select order_items [''order_id'']) (\<lambda>items.
       Inr (groupby_agg items ''order_id'' [(''number_of_items'', agg_size)])))"

definition get_number_sellers :: "order \<Rightarrow> error + frame" where
  "get_number_sellers self =
     bind (getitem (data self) ''order_items'') (\<lambda>order_items.
     bind (select order_items [''order_id'', ''seller_id'']) (\<lambda>items.
       Inr (groupby_agg items ''order_id'' [(''number_of_sellers'', agg_nunique ''seller_id'')])))"

definition get_price_and_freight :: "order \<Rightarrow> error + frame" where
  "get_price_and_freight self =
     bind (getitem (data self) ''order_items'') (\<lambda>order_items.
     bind (select order_items [''order_id'', ''price'', ''freight_value'']) (\<lambda>items.
       Inr (groupby_agg items ''order_id''
              [(''price'', agg_sum ''price''), (''freight_value'', agg_sum ''freight_value'')])))"

section \<open>Distance extractor\<close>

text \<open>
  Modelled from the spec: \<open>haversine_distance\<close> of \<open>olist.utils\<close>, which the extractor
  imports and whose source is not part of the files at hand. The spec (4.6): given two
  (lng, lat) pairs in degrees, convert to radians, compute
  \<open>a = sin\<^sup>2(\<Delta>lat/2) + cos(lat1) cos(lat2) sin\<^sup>2(\<Delta>lng/2)\<close>, distance \<open>= 2 R asin(\<surd>a)\<close> with
  \<open>R = 6371\<close> km; rows with any null coordinate yield a null distance.
\<close>

definition radians :: "real \<Rightarrow> real" where
  "radians x = x * pi / 180"

definition haversine :: "real \<Rightarrow> real \<Rightarrow> real \<Rightarrow> real \<Rightarrow> real" where
  "haversine lon1 lat1 lon2 lat2 =
     (let dlon = radians lon2 - radians lon1;
          dlat = radians lat2 - radians lat1;
          a = (sin (dlat / 2))\<^sup>2 + cos (radians lat1) * cos (radians lat2) * (sin (dlon / 2))\<^sup>2
      in 2 * 6371 * arcsin (sqrt a))"

fun haversine_distance :: "cell \<Rightarrow> cell \<Rightarrow> cell \<Rightarrow> cell \<Rightarrow> cell" where
  "haversine_distance (Num lon1) (Num lat1) (Num lon2) (Num lat2) =
     Num (haversine lon1 lat1 lon2 lat2)"
| "haversine_distance _ _ _ _ = Null"

text \<open>The frame of (order, item-line) rows with their distance, steps 1 to 7 of the
  extractor, and the extractor itself, which averages it per order (step 8).\<close>

definition distance_lines :: "order \<Rightarrow> error + frame" where
  "distance_lines self =
     bind (getitem (data self) ''orders'') (\<lambda>orders0.
     bind (select orders0 [''order_id'', ''customer_id'']) (\<lambda>orders.
     bind (getitem (data self) ''customers'') (\<lambda>customers0.
     bind (select customers0 [''customer_id'', ''customer_zip_code_prefix'']) (\<lambda>customers.
     bind (getitem (data self) ''sellers'') (\<lambda>sellers0.
     bind (select sellers0 [''seller_id'', ''seller_zip_code_prefix'']) (\<lambda>sellers.
     bind (getitem (data self) ''order_items'') (\<lambda>order_items.
     bind (select order_items [''order_id'', ''seller_id'']) (\<lambda>items.
     bind (getitem (data self) ''geolocation'') (\<lambda>geo.
     bind (select geo [''geolocation_zip_code_prefix'', ''geolocation_lat'', ''geolocation_lng''])
       (\<lambda>geo_cols.
       let geo_zip = groupby_agg geo_cols ''geolocation_zip_code_prefix''
             [(''geolocation_lat'', agg_mean ''geolocation_lat''),
              (''geolocation_lng'', agg_mean ''geolocation_lng'')]
       in
     bind (merge_left orders customers ''customer_id'') (\<lambda>oc.
       let order_customer = rename oc [(''customer_zip_code_prefix'', ''customer_zip'')] in
     bind (merge_left items sellers ''seller_id'') (\<lambda>os.
       let order_seller = rename os [(''seller_zip_code_prefix'', ''seller_zip'')] in
     bind (select order_customer [''order_id'', ''customer_zip'']) (\<lambda>oc_zip.
     bind (merge_left order_seller oc_zip ''order_id'') (\<lambda>df.
     bind (merge_left df
             (rename geo_zip [(''geolocation_zip_code_prefix'', ''seller_zip''),
                (''geolocation_lat'', ''seller_lat''), (''geolocation_lng'', ''seller_lng'')])
             ''seller_zip'') (\<lambda>df.
     bind (merge_left df
             (rename geo_zip [(''geolocation_zip_code_prefix'', ''customer_zip''),
                (''geolocation_lat'', ''customer_lat''), (''geolocation_lng'', ''customer_lng'')])
             ''customer_zip'') (\<lambda>df.
       Inr (assign df ''distance_km'' (\<lambda>r.
              haversine_distance (r ''seller_lng'') (r ''seller_lat'')
                (r ''customer_lng'') (r ''customer_lat'')))))))))))))))))))"

definition get_distance_seller_customer :: "order \<Rightarrow> error + frame" where
  "get_distance_seller_customer self =
     bind (distance_lines self) (\<lambda>df.
       Inr (groupby_agg df ''order_id''
              [(''distance_seller_customer'', agg_mean ''distance_km'')]))"

section \<open>Training table assembler\<close>

definition get_training_data :: "parser \<Rightarrow> order \<Rightarrow> bool \<Rightarrow> bool \<Rightarrow> error + frame" where
  "get_training_data parse self is_delivered with_distance_seller_customer =
     bind (get_wait_time parse self is_delivered) (\<lambda>df.
     bind (get_review_score self) (\<lambda>f. bind (merge_left df f ''order_id'') (\<lambda>df.
     bind (get_number_items self) (\<lambda>f. bind (merge_left df f ''order_id'') (\<lambda>df.
     bind (get_number_sellers self) (\<lambda>f. bind (merge_left df f ''order_id'') (\<lambda>df.
     bind (get_price_and_freight self) (\<lambda>f. bind (merge_left df f ''order_id'') (\<lambda>df.
     bind (if with_distance_seller_customer
           then bind (get_distance_seller_customer self) (\<lambda>f. merge_left df f ''order_id'')
           else Inr df) (\<lambda>df.
       let df = dropna df;
           cols = [''order_id'', ''wait_time'', ''expected_wait_time'', ''delay_vs_expected'',
                   ''order_status'', ''dim_is_five_star'', ''dim_is_one_star'', ''review_score'',
                   ''number_of_items'', ''number_of_sellers'', ''price'', ''freight_value''];
           cols = (if with_distance_seller_customer
                   then cols @ [''distance_seller_customer''] else cols)
       in select df cols))))))))))"

section \<open>The extractors' rows in closed form\<close>

text \<open>The output row of the review extractor for one row of the reviews table.\<close>

definition review_row :: "row \<Rightarrow> row" where
  "review_row r = (\<lambda>c.
     if c = ''order_id'' then r ''order_id''
     else if c = ''dim_is_five_star'' then eq_int (r ''review_score'') 5
     else if c = ''dim_is_one_star'' then eq_int (r ''review_score'') 1
     else if c = ''review_score'' then r ''review_score'' else Null)"

text \<open>The orders the wait-time extractor keeps, and its output row for one of them; \<open>rs\<close>
  are the kept rows, whose columns the timestamps are parsed in.\<close>

definition kept_orders :: "frame \<Rightarrow> bool \<Rightarrow> row list" where
  "kept_orders orders is_delivered =
     (if is_delivered then filter (\<lambda>r. r ''order_status'' = Str ''delivered'') (rows orders)
      else rows orders)"

definition wait_row :: "parser \<Rightarrow> row list \<Rightarrow> row \<Rightarrow> row" where
  "wait_row parse rs r =
     (let col = (\<lambda>c. to_datetime parse (map (\<lambda>r. r c) rs) (r c));
          w = div_num (total_seconds (sub_datetime (col ''order_delivered_customer_date'')
                (col ''order_purchase_timestamp''))) 86400;
          e = div_num (total_seconds (sub_datetime (col ''order_estimated_delivery_date'')
                (col ''order_purchase_timestamp''))) 86400;
          delay = sub_num w e
      in (\<lambda>c. if c = ''order_id'' then r ''order_id''
            else if c = ''wait_time'' then w
            else if c = ''expected_wait_time'' then e
            else if c = ''delay_vs_expected''
              then np_where (isna delay) Null (np_where (gt_num delay 0) delay (Num 0))
            else if c = ''order_status'' then r ''order_status'' else Null))"

section \<open>The assembler in two steps\<close>

text \<open>The table the assembler has after its joins and before it drops rows (lines 212
  to 220 of the source).\<close>

definition joined_features :: "parser \<Rightarrow> order \<Rightarrow> bool \<Rightarrow> bool \<Rightarrow> error + frame" where
  "joined_features parse self is_delivered with_distance_seller_customer =
     bind (get_wait_time parse self is_delivered) (\<lambda>df.
     bind (get_review_score self) (\<lambda>f. bind (merge_left df f ''order_id'') (\<lambda>df.
     bind (get_number_items self) (\<lambda>f. bind (merge_left df f ''order_id'') (\<lambda>df.
     bind (get_number_sellers self) (\<lambda>f. bind (merge_left df f ''order_id'') (\<lambda>df.
     bind (get_price_and_freight self) (\<lambda>f. bind (merge_left df f ''order_id'') (\<lambda>df.
       if with_distance_seller_customer
       then bind (get_distance_seller_customer self) (\<lambda>f. merge_left df f ''order_id'')
       else Inr df)))))))))"

definition training_columns :: "bool \<Rightarrow> string list" where
  "training_columns with_distance_seller_customer =
     [''order_id'', ''wait_time'', ''expected_wait_time'', ''delay_vs_expected'',
      ''order_status'', ''dim_is_five_star'', ''dim_is_one_star'', ''review_score'',
      ''number_of_items'', ''number_of_sellers'', ''price'', ''freight_value'']
     @ (if with_distance_seller_customer then [''distance_seller_customer''] else [])"

section \<open>An example dataset\<close>

definition example_parse :: parser where
  "example_parse column c = map_of
     [(Str ''2018-01-01 00:00:00'', 1514764800000000000),
      (Str ''2018-01-02 00:00:00'', 1514851200000000000),
      (Str ''2018-01-03 12:00:00'', 1514980800000000000),
      (Str ''2018-01-05 00:00:00'', 1515110400000000000)] c"

definition example_orders :: frame where
  "example_orders = DataFrame
     [''order_id'', ''customer_id'', ''order_status'', ''order_purchase_timestamp'',
      ''order_delivered_customer_date'', ''order_estimated_delivery_date'']
     [[Str ''o2'', Str ''c1'', Str ''delivered'', Str ''2018-01-01 00:00:00'',
       Str ''2018-01-03 12:00:00'', Str ''2018-01-02 00:00:00''],
      [Str ''o1'', Str ''c2'', Str ''delivered'', Str ''2018-01-01 00:00:00'',
       Null, Str ''2018-01-05 00:00:00''],
      [Str ''o3'', Str ''c1'', Str ''shipped'', Str ''2018-01-01 00:00:00'',
       Str ''not a date'', Str ''2018-01-05 00:00:00'']]"

definition example_reviews :: frame where
  "example_reviews = DataFrame [''review_id'', ''order_id'', ''review_score'']
     [[Str ''r1'', Str ''o2'', Num 5], [Str ''r2'', Str ''o2'', Num 1],
      [Str ''r3'', Str ''o1'', Num 7]]"

definition example_items :: frame where
  "example_items = DataFrame
     [''order_id'', ''order_item_id'', ''seller_id'', ''price'', ''freight_value'']
     [[Str ''o2'', Num 1, Str ''s1'', Num 10, Num 2],
      [Str ''o1'', Num 1, Str ''s1'', Num 10, Num 2],
      [Str ''o2'', Num 2, Str ''s2'', Num 5, Num 1],
      [Str ''o1'', Num 2, Str ''s3'', Num 20, Num 4],
      [Str ''o3'', Num 1, Str ''s2'', Num 7, Num 1]]"

definition example_customers :: frame where
  "example_customers = DataFrame [''customer_id'', ''customer_zip_code_prefix'']
     [[Str ''c1'', Num 1000], [Str ''c2'', Num 2000]]"

definition example_sellers :: frame where
  "example_sellers = DataFrame [''seller_id'', ''seller_zip_code_prefix'']
     [[Str ''s1'', Num 1000], [Str ''s2'', Num 3000], [Str ''s3'', Num 2000]]"

definition example_geolocation :: frame where
  "example_geolocation = DataFrame
     [''geolocation_zip_code_prefix'', ''geolocation_lat'', ''geolocation_lng'']
     [[Num 1000, Num (-1), Num 1], [Num 1000, Num 1, Num (-1)],
      [Num 2000, Num 0, Num 180]]"

definition example :: order where
  "example = \<lparr>data =
     [''orders'' \<mapsto> example_orders, ''order_reviews'' \<mapsto> example_reviews,
      ''order_items'' \<mapsto> example_items, ''customers'' \<mapsto> example_customers,
      ''sellers'' \<mapsto> example_sellers, ''geolocation'' \<mapsto> example_geolocation]\<rparr>"

text \<open>The (order, item-line) rows of the example with their distances.\<close>

definition example_lines :: frame where
  "example_lines = DataFrame [''order_id'', ''seller_id'', ''seller_zip'', ''customer_zip'',
            ''seller_lat'', ''seller_lng'', ''customer_lat'', ''customer_lng'', ''distance_km'']
       [[Str ''o2'', Str ''s1'', Num 1000, Num 1000, Num 0, Num 0, Num 0, Num 0, Num 0],
        [Str ''o1'', Str ''s1'', Num 1000, Num 2000, Num 0, Num 0, Num 0, Num 180,
         Num (6371 * pi)],
        [Str ''o2'', Str ''s2'', Num 3000, Num 1000, Null, Null, Num 0, Num 0, Null],
        [Str ''o1'', Str ''s3'', Num 2000, Num 2000, Num 0, Num 180, Num 0, Num 180, Num 0],
        [Str ''o3'', Str ''s2'', Num 3000, Num 1000, Null, Null, Num 0, Num 0, Null]]"

section \<open>Results and frames\<close>

lemma bind_Inr_iff: "bind m f = Inr y \<longleftrightarrow> (\<exists>x. m = Inr x \<and> f x = Inr y)"
  by (cases m) (simp_all add: bind_def)

lemma getitem_Inr_iff: "getitem d n = Inr df \<longleftrightarrow> d n = Some df"
  by (simp add: getitem_def split: option.splits)

lemma select_Inr_iff:
  "select df cs = Inr df' \<longleftrightarrow> set cs \<subseteq> set (columns df) \<and>
     df' = \<lparr>columns = cs, rows = map (project cs) (rows df)\<rparr>"
proof (cases "filter (\<lambda>c. c \<notin> set (columns df)) cs")
  case Nil
  then show ?thesis by (auto simp: select_def filter_empty_conv)
next
  case (Cons x xs)
  then have "x \<in> set (filter (\<lambda>c. c \<notin> set (columns df)) cs)" by simp
  then have "\<not> set cs \<subseteq> set (columns df)" by auto
  with Cons show ?thesis by (simp add: select_def)
qed

lemma bind_cong: "(\<And>x. m = Inr x \<Longrightarrow> f x = g x) \<Longrightarrow> bind m f = bind m g"
  by (cases m) (simp_all add: bind_def)

lemma columns_assign [simp]:
  "columns (assign df c f) = (if c \<in> set (columns df) then columns df else columns df @ [c])"
  by (simp add: assign_def)

lemma rows_assign [simp]: "rows (assign df c f) = map (\<lambda>r. r(c := f r)) (rows df)"
  by (simp add: assign_def)

lemma series_assign [simp]:
  "series (assign df c f) c' = (if c' = c then map f (rows df) else series df c')"
  by (simp add: series_def comp_def)

section \<open>Wait times\<close>

lemma wait_time_steps:
  fixes df :: frame and parse :: parser
  defines "df1 \<equiv> foldl (\<lambda>df col. assign df col (\<lambda>r. to_datetime parse (series df col) (r col))) df
                  [''order_purchase_timestamp'', ''order_delivered_customer_date'',
                   ''order_estimated_delivery_date'']"
  defines "df2 \<equiv> assign df1 ''wait_time'' (\<lambda>r. div_num (total_seconds
                  (sub_datetime (r ''order_delivered_customer_date'')
                     (r ''order_purchase_timestamp''))) 86400)"
  defines "df3 \<equiv> assign df2 ''expected_wait_time'' (\<lambda>r. div_num (total_seconds
                  (sub_datetime (r ''order_estimated_delivery_date'')
                     (r ''order_purchase_timestamp''))) 86400)"
  defines "df4 \<equiv> assign df3 ''delay_vs_expected'' (\<lambda>r.
                  np_where (isna (sub_num (r ''wait_time'') (r ''expected_wait_time''))) Null
                    (np_where (gt_num (sub_num (r ''wait_time'') (r ''expected_wait_time'')) 0)
                       (sub_num (r ''wait_time'') (r ''expected_wait_time'')) (Num 0)))"
  assumes "{''order_id'', ''order_status''} \<subseteq> set (columns df)"
  shows "select df4 [''order_id'', ''wait_time'', ''expected_wait_time'', ''delay_vs_expected'',
                     ''order_status'']
         = Inr \<lparr>columns = [''order_id'', ''wait_time'', ''expected_wait_time'',
                              ''delay_vs_expected'', ''order_status''],
                 rows = map (wait_row parse (rows df)) (rows df)\<rparr>"
proof -
  have cols: "{''order_id'', ''wait_time'', ''expected_wait_time'', ''delay_vs_expected'',
                     ''order_status''} \<subseteq> set (columns df4)"
    using assms(5) by (simp add: df4_def df3_def df2_def df1_def)
  have rows: "map (project [''order_id'', ''wait_time'', ''expected_wait_time'', ''delay_vs_expected'',
                     ''order_status'']) (rows df4) = map (wait_row parse (rows df)) (rows df)"
    by (simp add: df4_def df3_def df2_def df1_def comp_def wait_row_def Let_def fun_eq_iff series_def project_def)
  show ?thesis
    using cols rows by (simp add: select_Inr_iff)
qed


lemma wait_row_project:
  assumes "set [''order_id'', ''order_status'', ''order_purchase_timestamp'',
             ''order_delivered_customer_date'', ''order_estimated_delivery_date''] \<subseteq> set cs"
  shows "wait_row parse (map (project cs) rs) (project cs r) = wait_row parse rs r"
  using assms by (simp add: wait_row_def project_def comp_def)

lemma wait_time_body:
  assumes "{''order_id'', ''order_status''} \<subseteq> set (columns df0)"
  shows "(let df = (if is_delivered
                 then where_rows df0 (\<lambda>r. r ''order_status'' = Str ''delivered'') else df0);
           df = foldl (\<lambda>df col. assign df col (\<lambda>r. to_datetime parse (series df col) (r col))) df
                  [''order_purchase_timestamp'', ''order_delivered_customer_date'',
                   ''order_estimated_delivery_date''];
           df = assign df ''wait_time'' (\<lambda>r. div_num (total_seconds
                  (sub_datetime (r ''order_delivered_customer_date'')
                     (r ''order_purchase_timestamp''))) 86400);
           df = assign df ''expected_wait_time'' (\<lambda>r. div_num (total_seconds
                  (sub_datetime (r ''order_estimated_delivery_date'')
                     (r ''order_purchase_timestamp''))) 86400);
           delay = (\<lambda>r. sub_num (r ''wait_time'') (r ''expected_wait_time''));
           df = assign df ''delay_vs_expected'' (\<lambda>r.
                  np_where (isna (delay r)) Null (np_where (gt_num (delay r) 0) (delay r) (Num 0)))
       in select df [''order_id'', ''wait_time'', ''expected_wait_time'', ''delay_vs_expected'',
                     ''order_status''])
     = Inr \<lparr>columns = [''order_id'', ''wait_time'', ''expected_wait_time'',
                              ''delay_vs_expected'', ''order_status''],
                 rows = map (wait_row parse (kept_orders df0 is_delivered))
                          (kept_orders df0 is_delivered)\<rparr>"
proof -
  let ?df = "if is_delivered
                 then where_rows df0 (\<lambda>r. r ''order_status'' = Str ''delivered'') else df0"
  have c: "{''order_id'', ''order_status''} \<subseteq> set (columns ?df)"
    using assms by (simp add: where_rows_def)
  have r: "rows ?df = kept_orders df0 is_delivered"
    by (simp add: where_rows_def kept_orders_def)
  show ?thesis
    unfolding Let_def wait_time_steps [OF c] r ..
qed

lemma get_wait_time_iff:
  "get_wait_time parse self is_delivered = Inr df \<longleftrightarrow>
     (\<exists>orders. data self ''orders'' = Some orders
        \<and> {''order_id'', ''order_status'', ''order_purchase_timestamp'',
            ''order_delivered_customer_date'', ''order_estimated_delivery_date''}
            \<subseteq> set (columns orders)
        \<and> df = \<lparr>columns = [''order_id'', ''wait_time'', ''expected_wait_time'',
                              ''delay_vs_expected'', ''order_status''],
                 rows = map (wait_row parse (kept_orders orders is_delivered))
                          (kept_orders orders is_delivered)\<rparr>)"
proof -
  let ?cs = "[''order_id'', ''order_status'', ''order_purchase_timestamp'',
             ''order_delivered_customer_date'', ''order_estimated_delivery_date'']"
  have eq: "get_wait_time parse self is_delivered =
      bind (getitem (data self) ''orders'') (\<lambda>orders. bind (select orders ?cs) (\<lambda>df0.
        Inr \<lparr>columns = [''order_id'', ''wait_time'', ''expected_wait_time'',
                              ''delay_vs_expected'', ''order_status''],
                 rows = map (wait_row parse (kept_orders df0 is_delivered))
                          (kept_orders df0 is_delivered)\<rparr>))"
    unfolding get_wait_time_def
    by (rule bind_cong, rule bind_cong, rule wait_time_body) (simp add: select_Inr_iff)
  have kept: "kept_orders \<lparr>columns = ?cs, rows = map (project ?cs) (rows orders)\<rparr> is_delivered
      = map (project ?cs) (kept_orders orders is_delivered)" for orders :: frame
    by (simp add: kept_orders_def filter_map comp_def project_def)
  have rw: "map (wait_row parse (map (project ?cs) rs)) (map (project ?cs) rs) = map (wait_row parse rs) rs" for rs
    unfolding map_map comp_def by (rule map_cong [OF refl], rule wait_row_project) simp
  show ?thesis
    unfolding eq bind_Inr_iff getitem_Inr_iff select_Inr_iff
    by (auto simp: kept wait_row_project)
qed

lemma div_num_cases: "div_num c d = Null \<or> (\<exists>w. div_num c d = Num w)"
  by (cases c) (simp_all add: div_num_def)

lemma wait_row_wait_time:
  "wait_row parse rs r ''wait_time'' =
     div_num (total_seconds (sub_datetime
       (to_datetime parse (map (\<lambda>r. r ''order_delivered_customer_date'') rs)
          (r ''order_delivered_customer_date''))
       (to_datetime parse (map (\<lambda>r. r ''order_purchase_timestamp'') rs)
          (r ''order_purchase_timestamp'')))) 86400"
  by (simp add: wait_row_def Let_def)

lemma wait_row_expected_wait_time:
  "wait_row parse rs r ''expected_wait_time'' =
     div_num (total_seconds (sub_datetime
       (to_datetime parse (map (\<lambda>r. r ''order_estimated_delivery_date'') rs)
          (r ''order_estimated_delivery_date''))
       (to_datetime parse (map (\<lambda>r. r ''order_purchase_timestamp'') rs)
          (r ''order_purchase_timestamp'')))) 86400"
  by (simp add: wait_row_def Let_def)

lemma wait_row_order_id: "wait_row parse rs r ''order_id'' = r ''order_id''"
  by (simp add: wait_row_def Let_def)

lemma wait_row_cells:
  "wait_row parse rs r ''wait_time'' = Null \<or> (\<exists>w. wait_row parse rs r ''wait_time'' = Num w)"
  "wait_row parse rs r ''expected_wait_time'' = Null
     \<or> (\<exists>e. wait_row parse rs r ''expected_wait_time'' = Num e)"
  unfolding wait_row_wait_time wait_row_expected_wait_time by (rule div_num_cases)+

lemma delay_cell:
  "np_where (isna (sub_num a b)) Null (np_where (gt_num (sub_num a b) 0) (sub_num a b) (Num 0))
     = (case (a, b) of (Num w, Num e) \<Rightarrow> Num (max (w - e) 0) | _ \<Rightarrow> Null)"
  by (cases a; cases b) (simp_all add: np_where_def isna_def gt_num_def max_def)

lemma wait_row_delay:
  "wait_row parse rs r ''delay_vs_expected'' =
     (case (wait_row parse rs r ''wait_time'', wait_row parse rs r ''expected_wait_time'') of
        (Num w, Num e) \<Rightarrow> Num (max (w - e) 0) | _ \<Rightarrow> Null)"
  unfolding delay_cell [symmetric] by (simp add: wait_row_def Let_def)

text \<open>
  C2. In every row the wait-time extractor returns, \<open>delay_vs_expected\<close> is null exactly
  when \<open>wait_time\<close> or \<open>expected_wait_time\<close> is null; otherwise both are numbers and it
  is the larger of their difference and 0. So it is null or a number that is not negative.
\<close>

theorem delay_vs_expected_clamped:
  assumes "get_wait_time parse self is_delivered = Inr df" and "r \<in> set (rows df)"
  shows "(r ''delay_vs_expected'' = Null
           \<longleftrightarrow> r ''wait_time'' = Null \<or> r ''expected_wait_time'' = Null)
    \<and> (r ''wait_time'' \<noteq> Null \<and> r ''expected_wait_time'' \<noteq> Null \<longrightarrow>
         (\<exists>w e. r ''wait_time'' = Num w \<and> r ''expected_wait_time'' = Num e
            \<and> r ''delay_vs_expected'' = Num (max (w - e) 0)))
    \<and> (r ''delay_vs_expected'' = Null \<or> (\<exists>x. r ''delay_vs_expected'' = Num x \<and> 0 \<le> x))"
proof -
  from assms obtain rs r0 where r: "r = wait_row parse rs r0"
    by (auto simp: get_wait_time_iff)
  show ?thesis
    using wait_row_cells [of parse rs r0] unfolding r wait_row_delay [of parse rs r0]
    by auto
qed

lemma example_wait_time:
  "\<exists>df. get_wait_time example_parse example True = Inr df
     \<and> cells df = [[Str ''o2'', Num (5 / 2), Num 1, Num (3 / 2), Str ''delivered''],
                   [Str ''o1'', Null, Num 4, Null, Str ''delivered'']]"
  by (simp add: get_wait_time_iff example_def example_orders_def DataFrame_def cells_def
        kept_orders_def row_of_def wait_row_def Let_def to_datetime_def example_parse_def
        total_seconds_def div_num_def np_where_def isna_def gt_num_def)

theorem delay_vs_expected_clamped_witness:
  "case get_wait_time example_parse example True of Inl e \<Rightarrow> False
   | Inr df \<Rightarrow>
       cells df = [[Str ''o2'', Num (5 / 2), Num 1, Num (3 / 2), Str ''delivered''],
                   [Str ''o1'', Null, Num 4, Null, Str ''delivered'']]
     \<and> (\<forall>r \<in> set (rows df).
         (r ''delay_vs_expected'' = Null
           \<longleftrightarrow> r ''wait_time'' = Null \<or> r ''expected_wait_time'' = Null)
       \<and> (r ''wait_time'' \<noteq> Null \<and> r ''expected_wait_time'' \<noteq> Null \<longrightarrow>
           (\<exists>w e. r ''wait_time'' = Num w \<and> r ''expected_wait_time'' = Num e
              \<and> r ''delay_vs_expected'' = Num (max (w - e) 0)))
       \<and> (r ''delay_vs_expected'' = Null \<or> (\<exists>x. r ''delay_vs_expected'' = Num x \<and> 0 \<le> x)))"
proof -
  from example_wait_time obtain df where df: "get_wait_time example_parse example True = Inr df"
    and c: "cells df = [[Str ''o2'', Num (5 / 2), Num 1, Num (3 / 2), Str ''delivered''],
                   [Str ''o1'', Null, Num 4, Null, Str ''delivered'']]"
    by blast
  show ?thesis
    unfolding df sum.case using delay_vs_expected_clamped [OF df] c by blast
qed


lemma get_wait_time_rows:
  assumes "data self ''orders'' = Some orders"
    and "{''order_id'', ''order_status'', ''order_purchase_timestamp'',
          ''order_delivered_customer_date'', ''order_estimated_delivery_date''}
          \<subseteq> set (columns orders)"
    and "rs = kept_orders orders is_delivered"
  shows "\<exists>df. get_wait_time parse self is_delivered = Inr df
           \<and> rows df = map (wait_row parse rs) rs"
  using assms by (simp add: get_wait_time_iff)

lemma example_kept:
  "kept_orders example_orders True =
     [row_of [''order_id'', ''customer_id'', ''order_status'', ''order_purchase_timestamp'',
        ''order_delivered_customer_date'', ''order_estimated_delivery_date'']
       [Str ''o2'', Str ''c1'', Str ''delivered'', Str ''2018-01-01 00:00:00'',
        Str ''2018-01-03 12:00:00'', Str ''2018-01-02 00:00:00''],
      row_of [''order_id'', ''customer_id'', ''order_status'', ''order_purchase_timestamp'',
        ''order_delivered_customer_date'', ''order_estimated_delivery_date'']
       [Str ''o1'', Str ''c2'', Str ''delivered'', Str ''2018-01-01 00:00:00'',
        Null, Str ''2018-01-05 00:00:00'']]"
  by (simp add: kept_orders_def example_orders_def DataFrame_def row_of_def)

lemma example_kept_all:
  "kept_orders example_orders False =
     [row_of [''order_id'', ''customer_id'', ''order_status'', ''order_purchase_timestamp'',
        ''order_delivered_customer_date'', ''order_estimated_delivery_date'']
       [Str ''o2'', Str ''c1'', Str ''delivered'', Str ''2018-01-01 00:00:00'',
        Str ''2018-01-03 12:00:00'', Str ''2018-01-02 00:00:00''],
      row_of [''order_id'', ''customer_id'', ''order_status'', ''order_purchase_timestamp'',
        ''order_delivered_customer_date'', ''order_estimated_delivery_date'']
       [Str ''o1'', Str ''c2'', Str ''delivered'', Str ''2018-01-01 00:00:00'',
        Null, Str ''2018-01-05 00:00:00''],
      row_of [''order_id'', ''customer_id'', ''order_status'', ''order_purchase_timestamp'',
        ''order_delivered_customer_date'', ''order_estimated_delivery_date'']
       [Str ''o3'', Str ''c1'', Str ''shipped'', Str ''2018-01-01 00:00:00'',
        Str ''not a date'', Str ''2018-01-05 00:00:00'']]"
  by (simp add: kept_orders_def example_orders_def DataFrame_def)

section \<open>Review indicators\<close>

lemma get_review_score_iff:
  "get_review_score self = Inr df \<longleftrightarrow>
     (\<exists>reviews. data self ''order_reviews'' = Some reviews
        \<and> {''order_id'', ''review_score''} \<subseteq> set (columns reviews)
        \<and> df = \<lparr>columns = [''order_id'', ''dim_is_five_star'', ''dim_is_one_star'',
                              ''review_score''],
                 rows = map review_row (rows reviews)\<rparr>)"
  by (auto simp: get_review_score_def bind_Inr_iff getitem_Inr_iff select_Inr_iff Let_def
        assign_def review_row_def project_def fun_eq_iff)

text \<open>
  C5. In every row the review extractor returns, each indicator is 0 or 1, the two are
  never both 1, the five-star indicator is 1 exactly when the score is 5, the one-star
  indicator is 1 exactly when the score is 1, and a score that is none of 1 to 5 gives
  0 for both.
\<close>

theorem review_indicators:
  assumes "get_review_score self = Inr df" and "r \<in> set (rows df)"
  shows "r ''dim_is_five_star'' \<in> {Num 0, Num 1} \<and> r ''dim_is_one_star'' \<in> {Num 0, Num 1}
    \<and> \<not> (r ''dim_is_five_star'' = Num 1 \<and> r ''dim_is_one_star'' = Num 1)
    \<and> (r ''dim_is_five_star'' = Num 1 \<longleftrightarrow> r ''review_score'' = Num 5)
    \<and> (r ''dim_is_one_star'' = Num 1 \<longleftrightarrow> r ''review_score'' = Num 1)
    \<and> (r ''review_score'' \<notin> {Num 1, Num 2, Num 3, Num 4, Num 5}
          \<longrightarrow> r ''dim_is_five_star'' = Num 0 \<and> r ''dim_is_one_star'' = Num 0)"
proof -
  from assms obtain r0 where "r = review_row r0"
    by (auto simp: get_review_score_iff)
  then show ?thesis
    by (simp add: review_row_def eq_int_def)
qed

theorem review_indicators_witness:
  "case get_review_score example of Inl e \<Rightarrow> False
   | Inr df \<Rightarrow>
       cells df = [[Str ''o2'', Num 1, Num 0, Num 5], [Str ''o2'', Num 0, Num 1, Num 1],
                   [Str ''o1'', Num 0, Num 0, Num 7]]
     \<and> (\<forall>r \<in> set (rows df).
          r ''dim_is_five_star'' \<in> {Num 0, Num 1} \<and> r ''dim_is_one_star'' \<in> {Num 0, Num 1}
        \<and> \<not> (r ''dim_is_five_star'' = Num 1 \<and> r ''dim_is_one_star'' = Num 1)
        \<and> (r ''dim_is_five_star'' = Num 1 \<longleftrightarrow> r ''review_score'' = Num 5)
        \<and> (r ''dim_is_one_star'' = Num 1 \<longleftrightarrow> r ''review_score'' = Num 1)
        \<and> (r ''review_score'' \<notin> {Num 1, Num 2, Num 3, Num 4, Num 5}
              \<longrightarrow> r ''dim_is_five_star'' = Num 0 \<and> r ''dim_is_one_star'' = Num 0))"
proof -
  obtain df where df: "get_review_score example = Inr df"
    and c: "cells df = [[Str ''o2'', Num 1, Num 0, Num 5], [Str ''o2'', Num 0, Num 1, Num 1],
                        [Str ''o1'', Num 0, Num 0, Num 7]]"
    by (simp add: get_review_score_iff example_def example_reviews_def DataFrame_def cells_def
          review_row_def row_of_def eq_int_def)
  show ?thesis
    unfolding df sum.case using review_indicators [OF df] c by blast
qed

section \<open>Groups\<close>

lemma set_insort_cell: "set (insort_cell k xs) = insert k (set xs)"
  by (induction xs) auto

lemma distinct_insort_cell: "distinct (insort_cell k xs) \<longleftrightarrow> k \<notin> set xs \<and> distinct xs"
  by (induction xs) (auto simp: set_insort_cell)

lemma set_sort_cells: "set (sort_cells ks) = set ks"
  unfolding sort_cells_def by (induction ks) (simp_all add: set_insort_cell)

lemma distinct_sort_cells: "distinct (sort_cells ks) = distinct ks"
  unfolding sort_cells_def
  by (induction ks) (simp_all add: distinct_insort_cell set_sort_cells [unfolded sort_cells_def])

lemma set_group_keys: "set (group_keys df key) = set (series df key) - {Null}"
  by (auto simp: group_keys_def set_sort_cells)

lemma distinct_group_keys: "distinct (group_keys df key)"
  by (simp add: group_keys_def distinct_sort_cells)

lemma filter_map_distinct:
  assumes "distinct ks" and "\<And>k. g (f k) = k"
  shows "filter (\<lambda>r. g r = k) (map f ks) = (if k \<in> set ks then [f k] else [])"
  using assms(1) by (induction ks) (auto simp: assms(2))

lemma columns_groupby_agg: "columns (groupby_agg df key aggs) = key # map fst aggs"
  by (simp add: groupby_agg_def DataFrame_def)

lemma groupby_agg_lookup:
  "filter (\<lambda>r. r key = k) (rows (groupby_agg df key aggs)) =
     (if k \<noteq> Null \<and> k \<in> set (series df key)
      then [row_of (key # map fst aggs) (k # map (\<lambda>(c, f). f (group_rows df key k)) aggs)]
      else [])"
proof -
  let ?f = "\<lambda>k. row_of (key # map fst aggs) (k # map (\<lambda>(c, f). f (group_rows df key k)) aggs)"
  have "rows (groupby_agg df key aggs) = map ?f (group_keys df key)"
    by (simp add: groupby_agg_def DataFrame_def comp_def)
  moreover have "?f k key = k" for k
    by (simp add: row_of_def)
  ultimately show ?thesis
    using filter_map_distinct [of "group_keys df key" "\<lambda>r. r key" ?f k]
    by (auto simp: distinct_group_keys set_group_keys)
qed

section \<open>Items and sellers per order\<close>

lemma get_number_items_iff:
  "get_number_items self = Inr df \<longleftrightarrow>
     (\<exists>items. data self ''order_items'' = Some items \<and> ''order_id'' \<in> set (columns items)
        \<and> df = groupby_agg \<lparr>columns = [''order_id''], rows = map (project [''order_id'']) (rows items)\<rparr>
                 ''order_id'' [(''number_of_items'', agg_size)])"
  by (auto simp: get_number_items_def bind_Inr_iff getitem_Inr_iff select_Inr_iff)

lemma get_number_sellers_iff:
  "get_number_sellers self = Inr df \<longleftrightarrow>
     (\<exists>items. data self ''order_items'' = Some items
        \<and> {''order_id'', ''seller_id''} \<subseteq> set (columns items)
        \<and> df = groupby_agg \<lparr>columns = [''order_id'', ''seller_id''],
                   rows = map (project [''order_id'', ''seller_id'']) (rows items)\<rparr>
                 ''order_id'' [(''number_of_sellers'', agg_nunique ''seller_id'')])"
  by (auto simp: get_number_sellers_def bind_Inr_iff getitem_Inr_iff select_Inr_iff)

lemma group_rows_project:
  "key \<in> set cs \<Longrightarrow> group_rows \<lparr>columns = cs', rows = map (project cs) rs\<rparr> key k
     = map (project cs) (filter (\<lambda>r. r key = k) rs)"
  by (simp add: group_rows_def filter_map comp_def project_def)

lemma series_project:
  "key \<in> set cs \<Longrightarrow> series \<lparr>columns = cs', rows = map (project cs) rs\<rparr> key = map (\<lambda>r. r key) rs"
  by (simp add: series_def project_def)

text \<open>
  C8. For every order \<open>k\<close> present in the item-line table, the item-count extractor has
  exactly one row for \<open>k\<close>, whose \<open>number_of_items\<close> is the number of item-line rows of
  \<open>k\<close>; the seller-count extractor has exactly one row for \<open>k\<close>, whose
  \<open>number_of_sellers\<close> is the number of distinct seller identifiers on those rows; and
  the second number is at most the first.
\<close>

theorem items_and_sellers_per_order:
  assumes "data self ''order_items'' = Some items"
    and "{''order_id'', ''seller_id''} \<subseteq> set (columns items)"
    and "k \<noteq> Null" and "k \<in> set (series items ''order_id'')"
    and "lines = filter (\<lambda>r. r ''order_id'' = k) (rows items)"
  shows "\<exists>ni ns n m. get_number_items self = Inr ni \<and> get_number_sellers self = Inr ns
    \<and> map (\<lambda>r. r ''number_of_items'') (filter (\<lambda>r. r ''order_id'' = k) (rows ni)) = [Num (real n)]
    \<and> map (\<lambda>r. r ''number_of_sellers'') (filter (\<lambda>r. r ''order_id'' = k) (rows ns)) = [Num (real m)]
    \<and> n = length lines
    \<and> m = card ((\<lambda>r. r ''seller_id'') ` set lines - {Null})
    \<and> m \<le> n"
proof -
  let ?ids = "filter (\<lambda>v. v \<noteq> Null) (map (\<lambda>r. r ''seller_id'') lines)"
  have s: "set ?ids = (\<lambda>r. r ''seller_id'') ` set lines - {Null}"
    by auto
  have "length (remdups ?ids) \<le> length ?ids"
    by (rule length_remdups_leq)
  also have "\<dots> \<le> length lines"
    using length_filter_le [of "\<lambda>v. v \<noteq> Null" "map (\<lambda>r. r ''seller_id'') lines"] by simp
  finally have le: "length (remdups ?ids) \<le> length lines" .
  have c: "length (remdups ?ids) = card ((\<lambda>r. r ''seller_id'') ` set lines - {Null})"
    unfolding s [symmetric] by (simp add: length_remdups_card_conv)
  show ?thesis
    using assms(1-4) le c
    by (simp add: get_number_items_iff get_number_sellers_iff groupby_agg_lookup
          group_rows_project series_project row_of_def agg_size_def agg_nunique_def
          assms(5) [symmetric] comp_def project_def series_def)
qed


theorem items_and_sellers_per_order_witness:
  "\<exists>ni ns. get_number_items example = Inr ni \<and> get_number_sellers example = Inr ns
    \<and> map (\<lambda>r. r ''number_of_items'') (filter (\<lambda>r. r ''order_id'' = Str ''o2'') (rows ni))
        = [Num 2]
    \<and> map (\<lambda>r. r ''number_of_sellers'') (filter (\<lambda>r. r ''order_id'' = Str ''o2'') (rows ns))
        = [Num 2]"
proof -
  let ?lines = "filter (\<lambda>r. r ''order_id'' = Str ''o2'') (rows example_items)"
  have d: "data example ''order_items'' = Some example_items"
    by (simp add: example_def)
  have c: "{''order_id'', ''seller_id''} \<subseteq> set (columns example_items)"
    by (simp add: example_items_def DataFrame_def)
  have k: "Str ''o2'' \<in> set (series example_items ''order_id'')"
    by (simp add: example_items_def DataFrame_def series_def row_of_def)
  have n: "length ?lines = 2"
    by (simp add: example_items_def DataFrame_def row_of_def)
  have "(\<lambda>r. r ''seller_id'') ` set ?lines - {Null} = {Str ''s1'', Str ''s2''}"
    by (auto simp: example_items_def DataFrame_def row_of_def)
  then have m: "card ((\<lambda>r. r ''seller_id'') ` set ?lines - {Null}) = 2"
    by simp
  from items_and_sellers_per_order [OF d c _ k refl] n m
  show ?thesis by auto
qed

section \<open>The assembler\<close>

lemma bind_assoc: "bind (bind m f) g = bind m (\<lambda>x. bind (f x) g)"
  by (cases m) (simp_all add: bind_def)

lemma bind_Inr [simp]: "bind (Inr x) f = f x"
  by (simp add: bind_def)

lemma get_training_data_joined:
  "get_training_data parse self is_delivered w =
     bind (joined_features parse self is_delivered w)
       (\<lambda>df. select (dropna df) (training_columns w))"
  by (cases w) (simp_all add: get_training_data_def joined_features_def bind_assoc Let_def training_columns_def)

lemma bindE:
  assumes "bind m f = Inr y"
  obtains x where "m = Inr x" and "f x = Inr y"
  using assms by (auto simp: bind_Inr_iff)

lemma merge_left_Inr_iff:
  "merge_left left right on = Inr df \<longleftrightarrow>
     on \<in> set (columns left) \<and> on \<in> set (columns right) \<and>
     df = \<lparr>columns = columns left @ filter (\<lambda>c. c \<noteq> on) (columns right),
           rows = concat (map (\<lambda>a.
                  case filter (\<lambda>b. b on = a on) (rows right) of
                    [] \<Rightarrow> [\<lambda>c. if c \<in> set (filter (\<lambda>c. c \<noteq> on) (columns right)) then Null else a c]
                  | ms \<Rightarrow> map (\<lambda>b c. if c \<in> set (filter (\<lambda>c. c \<noteq> on) (columns right)) then b c else a c) ms) (rows left))\<rparr>"
  by (auto simp: merge_left_def Let_def)

lemma merge_left_eq:
  assumes "on \<in> set (columns left)" and "on \<in> set (columns right)"
  shows "merge_left left right on = Inr
     \<lparr>columns = columns left @ filter (\<lambda>c. c \<noteq> on) (columns right),
      rows = concat (map (\<lambda>a.
                  case filter (\<lambda>b. b on = a on) (rows right) of
                    [] \<Rightarrow> [\<lambda>c. if c \<in> set (filter (\<lambda>c. c \<noteq> on) (columns right)) then Null else a c]
                  | ms \<Rightarrow> map (\<lambda>b c. if c \<in> set (filter (\<lambda>c. c \<noteq> on) (columns right)) then b c else a c) ms) (rows left))\<rparr>"
  using assms by (simp add: merge_left_Inr_iff)

lemma columns_merge_left:
  "merge_left left right on = Inr df \<Longrightarrow>
     columns df = columns left @ filter (\<lambda>c. c \<noteq> on) (columns right)"
  by (simp add: merge_left_Inr_iff)

lemma columns_get_wait_time:
  "get_wait_time parse self d = Inr df \<Longrightarrow>
     columns df = [''order_id'', ''wait_time'', ''expected_wait_time'', ''delay_vs_expected'',
                   ''order_status'']"
  by (auto simp: get_wait_time_iff)

lemma columns_get_review_score:
  "get_review_score self = Inr df \<Longrightarrow>
     columns df = [''order_id'', ''dim_is_five_star'', ''dim_is_one_star'', ''review_score'']"
  by (auto simp: get_review_score_iff)

lemma columns_get_number_items:
  "get_number_items self = Inr df \<Longrightarrow> columns df = [''order_id'', ''number_of_items'']"
  by (auto simp: get_number_items_iff columns_groupby_agg)

lemma columns_get_number_sellers:
  "get_number_sellers self = Inr df \<Longrightarrow> columns df = [''order_id'', ''number_of_sellers'']"
  by (auto simp: get_number_sellers_iff columns_groupby_agg)

lemma get_price_and_freight_iff:
  "get_price_and_freight self = Inr df \<longleftrightarrow>
     (\<exists>items. data self ''order_items'' = Some items
        \<and> {''order_id'', ''price'', ''freight_value''} \<subseteq> set (columns items)
        \<and> df = groupby_agg \<lparr>columns = [''order_id'', ''price'', ''freight_value''],
                   rows = map (project [''order_id'', ''price'', ''freight_value'']) (rows items)\<rparr>
                 ''order_id''
                 [(''price'', agg_sum ''price''), (''freight_value'', agg_sum ''freight_value'')])"
  by (auto simp: get_price_and_freight_def bind_Inr_iff getitem_Inr_iff select_Inr_iff)

lemma columns_get_price_and_freight:
  "get_price_and_freight self = Inr df \<Longrightarrow> columns df = [''order_id'', ''price'', ''freight_value'']"
  by (auto simp: get_price_and_freight_iff columns_groupby_agg)

lemma columns_get_distance_seller_customer:
  "get_distance_seller_customer self = Inr df \<Longrightarrow>
     columns df = [''order_id'', ''distance_seller_customer'']"
  by (auto simp: get_distance_seller_customer_def bind_Inr_iff columns_groupby_agg)

lemma columns_joined_features:
  assumes "joined_features parse self d w = Inr df"
  shows "columns df = training_columns w"
  using assms unfolding joined_features_def
  apply (elim bindE)
  apply (cases w)
   apply (simp_all only: if_True if_False)
   apply (elim bindE)
   apply (drule columns_get_wait_time columns_get_review_score columns_get_number_items
      columns_get_number_sellers columns_get_price_and_freight
      columns_get_distance_seller_customer columns_merge_left)+
   apply (simp add: training_columns_def)
   apply (drule columns_get_wait_time columns_get_review_score columns_get_number_items
      columns_get_number_sellers columns_get_price_and_freight
      columns_get_distance_seller_customer columns_merge_left)+
  apply (simp add: training_columns_def)
  done

lemma columns_dropna [simp]: "columns (dropna df) = columns df"
  by (simp add: dropna_def where_rows_def)

lemma rows_dropna: "rows (dropna df) = filter (\<lambda>r. \<forall>c \<in> set (columns df). r c \<noteq> Null) (rows df)"
  by (simp add: dropna_def where_rows_def list_all_iff)

lemma get_training_data_iff:
  "get_training_data parse self d w = Inr df \<longleftrightarrow>
     (\<exists>j. joined_features parse self d w = Inr j
        \<and> df = \<lparr>columns = training_columns w,
                 rows = map (project (training_columns w)) (rows (dropna j))\<rparr>)"
proof -
  have "select (dropna j) (training_columns w) = Inr df \<longleftrightarrow>
          df = \<lparr>columns = training_columns w,
                 rows = map (project (training_columns w)) (rows (dropna j))\<rparr>"
    if "joined_features parse self d w = Inr j" for j
    using columns_joined_features [OF that] by (simp add: select_Inr_iff)
  then show ?thesis
    unfolding get_training_data_joined bind_Inr_iff by blast
qed


lemma select_ok:
  "set cs \<subseteq> set (columns df) \<Longrightarrow>
     select df cs = Inr \<lparr>columns = cs, rows = map (project cs) (rows df)\<rparr>"
  by (simp add: select_Inr_iff)

lemma columns_rename:
  "columns (rename df m) = map (\<lambda>c. case map_of m c of Some n \<Rightarrow> n | None \<Rightarrow> c) (columns df)"
  by (simp add: rename_def Let_def)

section \<open>Distances\<close>

lemma distance_lines_rows:
  assumes "distance_lines self = Inr lines"
  shows "\<forall>r \<in> set (rows lines). r ''distance_km'' =
           haversine_distance (r ''seller_lng'') (r ''seller_lat'')
             (r ''customer_lng'') (r ''customer_lat'')"
proof -
  from assms obtain df where "lines = assign df ''distance_km'' (\<lambda>r.
              haversine_distance (r ''seller_lng'') (r ''seller_lat'')
                (r ''customer_lng'') (r ''customer_lat''))"
    unfolding distance_lines_def Let_def by (elim bindE) auto
  then show ?thesis by simp
qed

lemma nums_all_null: "\<forall>r \<in> set g. r col = Null \<Longrightarrow> nums col g = []"
  by (induction g) (simp_all add: nums_def)

lemma haversine_distance_null:
  "a = Null \<or> b = Null \<or> c = Null \<or> d = Null \<Longrightarrow> haversine_distance a b c d = Null"
  by (cases a; cases b; cases c; cases d) simp_all

text \<open>
  C4. When the distance extractor returns, the frame of (order, item-line) rows it
  averages has in every row the haversine distance of the row's coordinates, which is
  null as soon as a seller or customer coordinate is null; and for every order id of
  that frame the result has exactly one row, whose \<open>distance_seller_customer\<close> is the
  mean of the order's non-null line distances, or null when there is none, in
  particular when all the order's line distances are null.
\<close>

theorem distance_is_mean_of_lines:
  assumes "get_distance_seller_customer self = Inr out"
  shows "\<exists>lines. distance_lines self = Inr lines
    \<and> (\<forall>r \<in> set (rows lines).
          r ''distance_km'' = haversine_distance (r ''seller_lng'') (r ''seller_lat'')
             (r ''customer_lng'') (r ''customer_lat'')
        \<and> (r ''seller_lng'' = Null \<or> r ''seller_lat'' = Null \<or> r ''customer_lng'' = Null
             \<or> r ''customer_lat'' = Null \<longrightarrow> r ''distance_km'' = Null))
    \<and> (\<forall>oid. oid \<noteq> Null \<and> oid \<in> set (series lines ''order_id'') \<longrightarrow>
          (let ds = nums ''distance_km'' (filter (\<lambda>r. r ''order_id'' = oid) (rows lines))
           in map (\<lambda>r. r ''distance_seller_customer'')
                (filter (\<lambda>r. r ''order_id'' = oid) (rows out))
              = [if ds = [] then Null else Num (sum_list ds / real (length ds))])
          \<and> ((\<forall>r \<in> set (rows lines). r ''order_id'' = oid \<longrightarrow> r ''distance_km'' = Null)
               \<longrightarrow> map (\<lambda>r. r ''distance_seller_customer'')
                     (filter (\<lambda>r. r ''order_id'' = oid) (rows out)) = [Null]))"
proof -
  from assms obtain lines where l: "distance_lines self = Inr lines"
    and out: "out = groupby_agg lines ''order_id''
              [(''distance_seller_customer'', agg_mean ''distance_km'')]"
    by (auto simp: get_distance_seller_customer_def bind_Inr_iff)
  have a: "\<forall>r \<in> set (rows lines).
          r ''distance_km'' = haversine_distance (r ''seller_lng'') (r ''seller_lat'')
             (r ''customer_lng'') (r ''customer_lat'')
        \<and> (r ''seller_lng'' = Null \<or> r ''seller_lat'' = Null \<or> r ''customer_lng'' = Null
             \<or> r ''customer_lat'' = Null \<longrightarrow> r ''distance_km'' = Null)"
    using distance_lines_rows [OF l] haversine_distance_null by metis
  have b: "\<forall>oid. oid \<noteq> Null \<and> oid \<in> set (series lines ''order_id'') \<longrightarrow>
          (let ds = nums ''distance_km'' (filter (\<lambda>r. r ''order_id'' = oid) (rows lines))
           in map (\<lambda>r. r ''distance_seller_customer'')
                (filter (\<lambda>r. r ''order_id'' = oid) (rows out))
              = [if ds = [] then Null else Num (sum_list ds / real (length ds))])
          \<and> ((\<forall>r \<in> set (rows lines). r ''order_id'' = oid \<longrightarrow> r ''distance_km'' = Null)
               \<longrightarrow> map (\<lambda>r. r ''distance_seller_customer'')
                     (filter (\<lambda>r. r ''order_id'' = oid) (rows out)) = [Null])"
    unfolding out
    by (auto simp: groupby_agg_lookup row_of_def agg_mean_def group_rows_def Let_def
          nums_all_null)
  from l a b show ?thesis by blast
qed

section \<open>The distance extractor on the example\<close>

lemma example_step_orders:
  "select example_orders [''order_id'', ''customer_id''] = Inr (DataFrame [''order_id'', ''customer_id'']
     [[Str ''o2'', Str ''c1''], [Str ''o1'', Str ''c2''], [Str ''o3'', Str ''c1'']])"
  by (simp add: select_ok example_orders_def DataFrame_def project_def row_of_def fun_eq_iff)

lemma example_step_customers:
  "select example_customers [''customer_id'', ''customer_zip_code_prefix''] =
     Inr (DataFrame [''customer_id'', ''customer_zip_code_prefix'']
       [[Str ''c1'', Num 1000], [Str ''c2'', Num 2000]])"
  by (simp add: select_ok example_customers_def DataFrame_def project_def row_of_def fun_eq_iff)

lemma example_step_oc:
  "merge_left (DataFrame [''order_id'', ''customer_id'']
     [[Str ''o2'', Str ''c1''], [Str ''o1'', Str ''c2''], [Str ''o3'', Str ''c1'']])
     (DataFrame [''customer_id'', ''customer_zip_code_prefix'']
       [[Str ''c1'', Num 1000], [Str ''c2'', Num 2000]]) ''customer_id''
   = Inr (DataFrame [''order_id'', ''customer_id'', ''customer_zip_code_prefix'']
       [[Str ''o2'', Str ''c1'', Num 1000], [Str ''o1'', Str ''c2'', Num 2000], [Str ''o3'', Str ''c1'', Num 1000]])"
  by (simp add: merge_left_eq DataFrame_def row_of_def fun_eq_iff)

lemma example_step_rename:
  "rename (DataFrame [''order_id'', ''customer_id'', ''customer_zip_code_prefix'']
       [[Str ''o2'', Str ''c1'', Num 1000], [Str ''o1'', Str ''c2'', Num 2000], [Str ''o3'', Str ''c1'', Num 1000]])
     [(''customer_zip_code_prefix'', ''customer_zip'')]
   = DataFrame [''order_id'', ''customer_id'', ''customer_zip'']
       [[Str ''o2'', Str ''c1'', Num 1000], [Str ''o1'', Str ''c2'', Num 2000], [Str ''o3'', Str ''c1'', Num 1000]]"
  by (simp add: rename_def DataFrame_def row_of_def fun_eq_iff)

lemma example_step_geo:
  "groupby_agg (DataFrame [''geolocation_zip_code_prefix'', ''geolocation_lat'', ''geolocation_lng'']
       [[Num 1000, Num (-1), Num 1], [Num 1000, Num 1, Num (-1)], [Num 2000, Num 0, Num 180]])
     ''geolocation_zip_code_prefix''
             [(''geolocation_lat'', agg_mean ''geolocation_lat''),
              (''geolocation_lng'', agg_mean ''geolocation_lng'')]
   = DataFrame [''geolocation_zip_code_prefix'', ''geolocation_lat'', ''geolocation_lng'']
       [[Num 1000, Num 0, Num 0], [Num 2000, Num 0, Num 180]]"
proof -
  have k: "group_keys (DataFrame [''geolocation_zip_code_prefix'', ''geolocation_lat'', ''geolocation_lng'']
       [[Num 1000, Num (-1), Num 1], [Num 1000, Num 1, Num (-1)], [Num 2000, Num 0, Num 180]])
     ''geolocation_zip_code_prefix'' = [Num 1000, Num 2000]"
    by (simp add: group_keys_def series_def DataFrame_def row_of_def sort_cells_def)
  show ?thesis
    unfolding groupby_agg_def k
    by (simp add: group_rows_def DataFrame_def row_of_def agg_mean_def nums_def)
qed


lemma example_step_sellers:
  "select example_sellers [''seller_id'', ''seller_zip_code_prefix''] =
     Inr (DataFrame [''seller_id'', ''seller_zip_code_prefix'']
       [[Str ''s1'', Num 1000], [Str ''s2'', Num 3000], [Str ''s3'', Num 2000]])"
  by (simp add: select_ok example_sellers_def DataFrame_def project_def row_of_def fun_eq_iff)

lemma example_step_items:
  "select example_items [''order_id'', ''seller_id''] =
     Inr (DataFrame [''order_id'', ''seller_id'']
       [[Str ''o2'', Str ''s1''], [Str ''o1'', Str ''s1''], [Str ''o2'', Str ''s2''],
        [Str ''o1'', Str ''s3''], [Str ''o3'', Str ''s2'']])"
  by (simp add: select_ok example_items_def DataFrame_def project_def row_of_def fun_eq_iff)

lemma example_step_geo_cols:
  "select example_geolocation
     [''geolocation_zip_code_prefix'', ''geolocation_lat'', ''geolocation_lng''] =
     Inr (DataFrame [''geolocation_zip_code_prefix'', ''geolocation_lat'', ''geolocation_lng'']
       [[Num 1000, Num (-1), Num 1], [Num 1000, Num 1, Num (-1)], [Num 2000, Num 0, Num 180]])"
  by (simp add: select_ok example_geolocation_def DataFrame_def project_def row_of_def fun_eq_iff)

lemma example_step_os:
  "merge_left (DataFrame [''order_id'', ''seller_id'']
       [[Str ''o2'', Str ''s1''], [Str ''o1'', Str ''s1''], [Str ''o2'', Str ''s2''],
        [Str ''o1'', Str ''s3''], [Str ''o3'', Str ''s2'']])
     (DataFrame [''seller_id'', ''seller_zip_code_prefix'']
       [[Str ''s1'', Num 1000], [Str ''s2'', Num 3000], [Str ''s3'', Num 2000]]) ''seller_id''
   = Inr (DataFrame [''order_id'', ''seller_id'', ''seller_zip_code_prefix'']
       [[Str ''o2'', Str ''s1'', Num 1000], [Str ''o1'', Str ''s1'', Num 1000],
        [Str ''o2'', Str ''s2'', Num 3000], [Str ''o1'', Str ''s3'', Num 2000],
        [Str ''o3'', Str ''s2'', Num 3000]])"
  by (simp add: merge_left_eq DataFrame_def row_of_def fun_eq_iff)

lemma example_step_os_rename:
  "rename (DataFrame [''order_id'', ''seller_id'', ''seller_zip_code_prefix'']
       [[Str ''o2'', Str ''s1'', Num 1000], [Str ''o1'', Str ''s1'', Num 1000],
        [Str ''o2'', Str ''s2'', Num 3000], [Str ''o1'', Str ''s3'', Num 2000],
        [Str ''o3'', Str ''s2'', Num 3000]])
     [(''seller_zip_code_prefix'', ''seller_zip'')]
   = DataFrame [''order_id'', ''seller_id'', ''seller_zip'']
       [[Str ''o2'', Str ''s1'', Num 1000], [Str ''o1'', Str ''s1'', Num 1000],
        [Str ''o2'', Str ''s2'', Num 3000], [Str ''o1'', Str ''s3'', Num 2000],
        [Str ''o3'', Str ''s2'', Num 3000]]"
  by (simp add: rename_def DataFrame_def row_of_def fun_eq_iff)

lemma example_step_oc_zip:
  "select (DataFrame [''order_id'', ''customer_id'', ''customer_zip'']
       [[Str ''o2'', Str ''c1'', Num 1000], [Str ''o1'', Str ''c2'', Num 2000],
        [Str ''o3'', Str ''c1'', Num 1000]]) [''order_id'', ''customer_zip'']
   = Inr (DataFrame [''order_id'', ''customer_zip'']
       [[Str ''o2'', Num 1000], [Str ''o1'', Num 2000], [Str ''o3'', Num 1000]])"
  by (simp add: select_ok DataFrame_def project_def row_of_def fun_eq_iff)

lemma example_step_df1:
  "merge_left (DataFrame [''order_id'', ''seller_id'', ''seller_zip'']
       [[Str ''o2'', Str ''s1'', Num 1000], [Str ''o1'', Str ''s1'', Num 1000],
        [Str ''o2'', Str ''s2'', Num 3000], [Str ''o1'', Str ''s3'', Num 2000],
        [Str ''o3'', Str ''s2'', Num 3000]])
     (DataFrame [''order_id'', ''customer_zip'']
       [[Str ''o2'', Num 1000], [Str ''o1'', Num 2000], [Str ''o3'', Num 1000]]) ''order_id''
   = Inr (DataFrame [''order_id'', ''seller_id'', ''seller_zip'', ''customer_zip'']
       [[Str ''o2'', Str ''s1'', Num 1000, Num 1000], [Str ''o1'', Str ''s1'', Num 1000, Num 2000],
        [Str ''o2'', Str ''s2'', Num 3000, Num 1000], [Str ''o1'', Str ''s3'', Num 2000, Num 2000],
        [Str ''o3'', Str ''s2'', Num 3000, Num 1000]])"
  by (simp add: merge_left_eq DataFrame_def row_of_def fun_eq_iff)

lemma example_step_geo_seller:
  "rename (DataFrame [''geolocation_zip_code_prefix'', ''geolocation_lat'', ''geolocation_lng'']
       [[Num 1000, Num 0, Num 0], [Num 2000, Num 0, Num 180]])
     [(''geolocation_zip_code_prefix'', ''seller_zip''),
      (''geolocation_lat'', ''seller_lat''), (''geolocation_lng'', ''seller_lng'')]
   = DataFrame [''seller_zip'', ''seller_lat'', ''seller_lng'']
       [[Num 1000, Num 0, Num 0], [Num 2000, Num 0, Num 180]]"
  by (simp add: rename_def DataFrame_def row_of_def fun_eq_iff)

lemma example_step_geo_customer:
  "rename (DataFrame [''geolocation_zip_code_prefix'', ''geolocation_lat'', ''geolocation_lng'']
       [[Num 1000, Num 0, Num 0], [Num 2000, Num 0, Num 180]])
     [(''geolocation_zip_code_prefix'', ''customer_zip''),
      (''geolocation_lat'', ''customer_lat''), (''geolocation_lng'', ''customer_lng'')]
   = DataFrame [''customer_zip'', ''customer_lat'', ''customer_lng'']
       [[Num 1000, Num 0, Num 0], [Num 2000, Num 0, Num 180]]"
  by (simp add: rename_def DataFrame_def row_of_def fun_eq_iff)

lemma example_step_df2:
  "merge_left (DataFrame [''order_id'', ''seller_id'', ''seller_zip'', ''customer_zip'']
       [[Str ''o2'', Str ''s1'', Num 1000, Num 1000], [Str ''o1'', Str ''s1'', Num 1000, Num 2000],
        [Str ''o2'', Str ''s2'', Num 3000, Num 1000], [Str ''o1'', Str ''s3'', Num 2000, Num 2000],
        [Str ''o3'', Str ''s2'', Num 3000, Num 1000]])
     (DataFrame [''seller_zip'', ''seller_lat'', ''seller_lng'']
       [[Num 1000, Num 0, Num 0], [Num 2000, Num 0, Num 180]]) ''seller_zip''
   = Inr (DataFrame [''order_id'', ''seller_id'', ''seller_zip'', ''customer_zip'',
            ''seller_lat'', ''seller_lng'']
       [[Str ''o2'', Str ''s1'', Num 1000, Num 1000, Num 0, Num 0],
        [Str ''o1'', Str ''s1'', Num 1000, Num 2000, Num 0, Num 0],
        [Str ''o2'', Str ''s2'', Num 3000, Num 1000, Null, Null],
        [Str ''o1'', Str ''s3'', Num 2000, Num 2000, Num 0, Num 180],
        [Str ''o3'', Str ''s2'', Num 3000, Num 1000, Null, Null]])"
  by (simp add: merge_left_eq DataFrame_def row_of_def fun_eq_iff)

lemma example_step_df3:
  "merge_left (DataFrame [''order_id'', ''seller_id'', ''seller_zip'', ''customer_zip'',
            ''seller_lat'', ''seller_lng'']
       [[Str ''o2'', Str ''s1'', Num 1000, Num 1000, Num 0, Num 0],
        [Str ''o1'', Str ''s1'', Num 1000, Num 2000, Num 0, Num 0],
        [Str ''o2'', Str ''s2'', Num 3000, Num 1000, Null, Null],
        [Str ''o1'', Str ''s3'', Num 2000, Num 2000, Num 0, Num 180],
        [Str ''o3'', Str ''s2'', Num 3000, Num 1000, Null, Null]])
     (DataFrame [''customer_zip'', ''customer_lat'', ''customer_lng'']
       [[Num 1000, Num 0, Num 0], [Num 2000, Num 0, Num 180]]) ''customer_zip''
   = Inr (DataFrame [''order_id'', ''seller_id'', ''seller_zip'', ''customer_zip'',
            ''seller_lat'', ''seller_lng'', ''customer_lat'', ''customer_lng'']
       [[Str ''o2'', Str ''s1'', Num 1000, Num 1000, Num 0, Num 0, Num 0, Num 0],
        [Str ''o1'', Str ''s1'', Num 1000, Num 2000, Num 0, Num 0, Num 0, Num 180],
        [Str ''o2'', Str ''s2'', Num 3000, Num 1000, Null, Null, Num 0, Num 0],
        [Str ''o1'', Str ''s3'', Num 2000, Num 2000, Num 0, Num 180, Num 0, Num 180],
        [Str ''o3'', Str ''s2'', Num 3000, Num 1000, Null, Null, Num 0, Num 0]])"
  by (simp add: merge_left_eq DataFrame_def row_of_def fun_eq_iff)

lemma haversine_same: "haversine lon lat lon lat = 0"
  by (simp add: haversine_def)

lemma haversine_half_turn: "haversine 0 0 180 0 = 6371 * pi"
  by (simp add: haversine_def radians_def)

lemma example_step_lines:
  "assign (DataFrame [''order_id'', ''seller_id'', ''seller_zip'', ''customer_zip'',
            ''seller_lat'', ''seller_lng'', ''customer_lat'', ''customer_lng'']
       [[Str ''o2'', Str ''s1'', Num 1000, Num 1000, Num 0, Num 0, Num 0, Num 0],
        [Str ''o1'', Str ''s1'', Num 1000, Num 2000, Num 0, Num 0, Num 0, Num 180],
        [Str ''o2'', Str ''s2'', Num 3000, Num 1000, Null, Null, Num 0, Num 0],
        [Str ''o1'', Str ''s3'', Num 2000, Num 2000, Num 0, Num 180, Num 0, Num 180],
        [Str ''o3'', Str ''s2'', Num 3000, Num 1000, Null, Null, Num 0, Num 0]])
     ''distance_km'' (\<lambda>r. haversine_distance (r ''seller_lng'') (r ''seller_lat'')
                (r ''customer_lng'') (r ''customer_lat''))
   = DataFrame [''order_id'', ''seller_id'', ''seller_zip'', ''customer_zip'',
            ''seller_lat'', ''seller_lng'', ''customer_lat'', ''customer_lng'', ''distance_km'']
       [[Str ''o2'', Str ''s1'', Num 1000, Num 1000, Num 0, Num 0, Num 0, Num 0, Num 0],
        [Str ''o1'', Str ''s1'', Num 1000, Num 2000, Num 0, Num 0, Num 0, Num 180,
         Num (6371 * pi)],
        [Str ''o2'', Str ''s2'', Num 3000, Num 1000, Null, Null, Num 0, Num 0, Null],
        [Str ''o1'', Str ''s3'', Num 2000, Num 2000, Num 0, Num 180, Num 0, Num 180, Num 0],
        [Str ''o3'', Str ''s2'', Num 3000, Num 1000, Null, Null, Num 0, Num 0, Null]]"
  by (simp add: assign_def DataFrame_def row_of_def fun_eq_iff haversine_same haversine_half_turn)

lemma example_distance_lines: "distance_lines example = Inr example_lines"
proof -
  have d: "data example ''orders'' = Some example_orders"
    "data example ''customers'' = Some example_customers"
    "data example ''sellers'' = Some example_sellers"
    "data example ''order_items'' = Some example_items"
    "data example ''geolocation'' = Some example_geolocation"
    by (simp_all add: example_def)
  show ?thesis
    unfolding distance_lines_def getitem_def d option.case bind_Inr example_step_orders example_step_customers
      example_step_sellers example_step_items example_step_geo_cols Let_def example_step_geo example_step_oc example_step_rename example_step_os example_step_os_rename
      example_step_oc_zip example_step_df1 example_step_geo_seller example_step_geo_customer example_step_df2 example_step_df3 example_step_lines example_lines_def ..
qed


lemma example_distances:
  "get_distance_seller_customer example = Inr (DataFrame
     [''order_id'', ''distance_seller_customer'']
     [[Str ''o1'', Num (6371 * pi / 2)], [Str ''o2'', Num 0], [Str ''o3'', Null]])"
proof -
  have k: "group_keys example_lines ''order_id'' = [Str ''o1'', Str ''o2'', Str ''o3'']"
    by (simp add: group_keys_def series_def example_lines_def DataFrame_def row_of_def
          sort_cells_def)
  show ?thesis
    unfolding get_distance_seller_customer_def example_distance_lines bind_Inr groupby_agg_def k
    by (simp add: group_rows_def example_lines_def DataFrame_def row_of_def agg_mean_def nums_def)
qed


theorem distance_is_mean_of_lines_witness:
  "\<exists>out lines. get_distance_seller_customer example = Inr out
     \<and> distance_lines example = Inr lines
     \<and> map (\<lambda>r. map r [''order_id'', ''seller_lat'', ''seller_lng'', ''customer_lat'',
                         ''customer_lng'', ''distance_km'']) (rows lines) =
         [[Str ''o2'', Num 0, Num 0, Num 0, Num 0, Num 0],
          [Str ''o1'', Num 0, Num 0, Num 0, Num 180, Num (6371 * pi)],
          [Str ''o2'', Null, Null, Num 0, Num 0, Null],
          [Str ''o1'', Num 0, Num 180, Num 0, Num 180, Num 0],
          [Str ''o3'', Null, Null, Num 0, Num 0, Null]]
     \<and> map (\<lambda>r. r ''distance_seller_customer'')
           (filter (\<lambda>r. r ''order_id'' = Str ''o1'') (rows out)) = [Num (6371 * pi / 2)]
     \<and> map (\<lambda>r. r ''distance_seller_customer'')
           (filter (\<lambda>r. r ''order_id'' = Str ''o2'') (rows out)) = [Num 0]
     \<and> map (\<lambda>r. r ''distance_seller_customer'')
           (filter (\<lambda>r. r ''order_id'' = Str ''o3'') (rows out)) = [Null]"
proof -
  from distance_is_mean_of_lines [OF example_distances] example_distance_lines
  have m: "\<forall>oid. oid \<noteq> Null \<and> oid \<in> set (series example_lines ''order_id'') \<longrightarrow>
          (let ds = nums ''distance_km'' (filter (\<lambda>r. r ''order_id'' = oid) (rows example_lines))
           in map (\<lambda>r. r ''distance_seller_customer'')
                (filter (\<lambda>r. r ''order_id'' = oid) (rows (DataFrame
     [''order_id'', ''distance_seller_customer'']
     [[Str ''o1'', Num (6371 * pi / 2)], [Str ''o2'', Num 0], [Str ''o3'', Null]])))
              = [if ds = [] then Null else Num (sum_list ds / real (length ds))])
          \<and> ((\<forall>r \<in> set (rows example_lines). r ''order_id'' = oid \<longrightarrow> r ''distance_km'' = Null)
               \<longrightarrow> map (\<lambda>r. r ''distance_seller_customer'')
                     (filter (\<lambda>r. r ''order_id'' = oid) (rows (DataFrame
     [''order_id'', ''distance_seller_customer'']
     [[Str ''o1'', Num (6371 * pi / 2)], [Str ''o2'', Num 0], [Str ''o3'', Null]]))) = [Null])"
    by auto
  have s: "series example_lines ''order_id''
             = [Str ''o2'', Str ''o1'', Str ''o2'', Str ''o1'', Str ''o3'']"
    by (simp add: series_def example_lines_def DataFrame_def row_of_def)
  have 1: "map (\<lambda>r. r ''distance_seller_customer'')
           (filter (\<lambda>r. r ''order_id'' = Str ''o1'') (rows (DataFrame
     [''order_id'', ''distance_seller_customer'']
     [[Str ''o1'', Num (6371 * pi / 2)], [Str ''o2'', Num 0], [Str ''o3'', Null]])))
       = [Num (6371 * pi / 2)]"
    using m [rule_format, of "Str ''o1''"]
    by (simp add: s) (simp add: example_lines_def DataFrame_def row_of_def nums_def)
  have 2: "map (\<lambda>r. r ''distance_seller_customer'')
           (filter (\<lambda>r. r ''order_id'' = Str ''o2'') (rows (DataFrame
     [''order_id'', ''distance_seller_customer'']
     [[Str ''o1'', Num (6371 * pi / 2)], [Str ''o2'', Num 0], [Str ''o3'', Null]])))
       = [Num 0]"
    using m [rule_format, of "Str ''o2''"]
    by (simp add: s) (simp add: example_lines_def DataFrame_def row_of_def nums_def)
  have 3: "map (\<lambda>r. r ''distance_seller_customer'')
           (filter (\<lambda>r. r ''order_id'' = Str ''o3'') (rows (DataFrame
     [''order_id'', ''distance_seller_customer'']
     [[Str ''o1'', Num (6371 * pi / 2)], [Str ''o2'', Num 0], [Str ''o3'', Null]])))
       = [Null]"
    using m [rule_format, of "Str ''o3''"]
    by (simp add: s) (simp add: example_lines_def DataFrame_def row_of_def nums_def)
  have c: "map (\<lambda>r. map r [''order_id'', ''seller_lat'', ''seller_lng'', ''customer_lat'',
                         ''customer_lng'', ''distance_km'']) (rows example_lines) =
         [[Str ''o2'', Num 0, Num 0, Num 0, Num 0, Num 0],
          [Str ''o1'', Num 0, Num 0, Num 0, Num 180, Num (6371 * pi)],
          [Str ''o2'', Null, Null, Num 0, Num 0, Null],
          [Str ''o1'', Num 0, Num 180, Num 0, Num 180, Num 0],
          [Str ''o3'', Null, Null, Num 0, Num 0, Null]]"
    by (simp add: example_lines_def DataFrame_def row_of_def)
  show ?thesis
    by (rule exI, rule exI, intro conjI)
      (rule example_distances example_distance_lines c 1 2 3)+
qed

section \<open>The example, evaluated\<close>

lemma example_get_wait:
  "get_wait_time example_parse example True = Inr
     \<lparr>columns = [''order_id'', ''wait_time'', ''expected_wait_time'', ''delay_vs_expected'', ''order_status''],
      rows = map (wait_row example_parse (kept_orders example_orders True)) (kept_orders example_orders True)\<rparr>"
  by (simp add: get_wait_time_iff example_def example_orders_def DataFrame_def)

lemma example_get_review:
  "get_review_score example = Inr
     \<lparr>columns = [''order_id'', ''dim_is_five_star'', ''dim_is_one_star'', ''review_score''],
      rows = map review_row (rows example_reviews)\<rparr>"
  by (simp add: get_review_score_iff example_def example_reviews_def DataFrame_def)

lemma example_get_items:
  "get_number_items example = Inr (groupby_agg \<lparr>columns = [''order_id''], rows = map (project [''order_id'']) (rows example_items)\<rparr>
                 ''order_id'' [(''number_of_items'', agg_size)])"
  by (simp add: get_number_items_iff example_def example_items_def DataFrame_def)

lemma example_get_sellers:
  "get_number_sellers example = Inr (groupby_agg \<lparr>columns = [''order_id'', ''seller_id''],
                   rows = map (project [''order_id'', ''seller_id'']) (rows example_items)\<rparr>
                 ''order_id'' [(''number_of_sellers'', agg_nunique ''seller_id'')])"
  by (simp add: get_number_sellers_iff example_def example_items_def DataFrame_def)

lemma example_get_price:
  "get_price_and_freight example = Inr (groupby_agg \<lparr>columns = [''order_id'', ''price'', ''freight_value''],
                   rows = map (project [''order_id'', ''price'', ''freight_value'']) (rows example_items)\<rparr>
                 ''order_id''
                 [(''price'', agg_sum ''price''), (''freight_value'', agg_sum ''freight_value'')])"
  by (simp add: get_price_and_freight_iff example_def example_items_def DataFrame_def)

lemma row_of_apply:
  "row_of cs vs c = (case map_of (zip cs vs) c of Some v \<Rightarrow> v | None \<Rightarrow> Null)"
  by (simp add: row_of_def)

lemma wait_row_canonical:
  "wait_row parse rs r = row_of
     [''order_id'', ''wait_time'', ''expected_wait_time'', ''delay_vs_expected'', ''order_status'']
     [r ''order_id'', wait_row parse rs r ''wait_time'', wait_row parse rs r ''expected_wait_time'',
      wait_row parse rs r ''delay_vs_expected'', r ''order_status'']"
  by (simp add: wait_row_def Let_def row_of_def fun_eq_iff)

lemma example_wait_table:
  "get_wait_time example_parse example True = Inr (DataFrame
     [''order_id'', ''wait_time'', ''expected_wait_time'', ''delay_vs_expected'', ''order_status'']
     [[Str ''o2'', Num (5 / 2), Num 1, Num (3 / 2), Str ''delivered''],
      [Str ''o1'', Null, Num 4, Null, Str ''delivered'']])"
proof -
  have 1: "wait_row example_parse rs
       (row_of [''order_id'', ''customer_id'', ''order_status'', ''order_purchase_timestamp'',
        ''order_delivered_customer_date'', ''order_estimated_delivery_date'']
       [Str ''o2'', Str ''c1'', Str ''delivered'', Str ''2018-01-01 00:00:00'',
        Str ''2018-01-03 12:00:00'', Str ''2018-01-02 00:00:00''])
     = row_of [''order_id'', ''wait_time'', ''expected_wait_time'', ''delay_vs_expected'',
         ''order_status'']
        [Str ''o2'', Num (5 / 2), Num 1, Num (3 / 2), Str ''delivered'']" for rs
    by (subst wait_row_canonical)
      (simp add: wait_row_delay wait_row_wait_time wait_row_expected_wait_time row_of_apply
         to_datetime_def example_parse_def total_seconds_def div_num_def)
  have 2: "wait_row example_parse rs
       (row_of [''order_id'', ''customer_id'', ''order_status'', ''order_purchase_timestamp'',
        ''order_delivered_customer_date'', ''order_estimated_delivery_date'']
       [Str ''o1'', Str ''c2'', Str ''delivered'', Str ''2018-01-01 00:00:00'',
        Null, Str ''2018-01-05 00:00:00''])
     = row_of [''order_id'', ''wait_time'', ''expected_wait_time'', ''delay_vs_expected'',
         ''order_status'']
        [Str ''o1'', Null, Num 4, Null, Str ''delivered'']" for rs
    by (subst wait_row_canonical)
      (simp add: wait_row_delay wait_row_wait_time wait_row_expected_wait_time row_of_apply
         to_datetime_def example_parse_def total_seconds_def div_num_def)
  show ?thesis
    unfolding example_get_wait by (simp only: example_kept list.map DataFrame_def 1 2)
qed

lemma example_review_table:
  "get_review_score example = Inr (DataFrame
     [''order_id'', ''dim_is_five_star'', ''dim_is_one_star'', ''review_score'']
     [[Str ''o2'', Num 1, Num 0, Num 5], [Str ''o2'', Num 0, Num 1, Num 1],
      [Str ''o1'', Num 0, Num 0, Num 7]])"
  unfolding example_get_review
  by (simp add: example_reviews_def DataFrame_def review_row_def row_of_def eq_int_def fun_eq_iff)

lemma example_item_keys:
  "group_keys \<lparr>columns = cs, rows = map (project cs) (rows example_items)\<rparr> ''order_id''
     = (if ''order_id'' \<in> set cs then [Str ''o1'', Str ''o2'', Str ''o3''] else [])"
  by (simp add: group_keys_def series_def example_items_def DataFrame_def row_of_def project_def
        sort_cells_def)

lemma example_items_table:
  "get_number_items example = Inr (DataFrame [''order_id'', ''number_of_items'']
     [[Str ''o1'', Num 2], [Str ''o2'', Num 2], [Str ''o3'', Num 1]])"
  unfolding example_get_items groupby_agg_def example_item_keys
  by (simp add: group_rows_def example_items_def DataFrame_def row_of_def project_def agg_size_def)

lemma example_sellers_table:
  "get_number_sellers example = Inr (DataFrame [''order_id'', ''number_of_sellers'']
     [[Str ''o1'', Num 2], [Str ''o2'', Num 2], [Str ''o3'', Num 1]])"
  unfolding example_get_sellers groupby_agg_def example_item_keys
  by (simp add: group_rows_def example_items_def DataFrame_def row_of_def project_def
        agg_nunique_def)

lemma example_price_table:
  "get_price_and_freight example = Inr (DataFrame [''order_id'', ''price'', ''freight_value'']
     [[Str ''o1'', Num 30, Num 6], [Str ''o2'', Num 15, Num 3], [Str ''o3'', Num 7, Num 1]])"
  unfolding example_get_price groupby_agg_def example_item_keys
  by (simp add: group_rows_def example_items_def DataFrame_def row_of_def project_def
        agg_sum_def nums_def)

lemma example_merge_reviews:
  "merge_left (DataFrame
     [''order_id'', ''wait_time'', ''expected_wait_time'', ''delay_vs_expected'', ''order_status'']
     [[Str ''o2'', Num (5 / 2), Num 1, Num (3 / 2), Str ''delivered''],
      [Str ''o1'', Null, Num 4, Null, Str ''delivered'']])
    (DataFrame
     [''order_id'', ''dim_is_five_star'', ''dim_is_one_star'', ''review_score'']
     [[Str ''o2'', Num 1, Num 0, Num 5], [Str ''o2'', Num 0, Num 1, Num 1],
      [Str ''o1'', Num 0, Num 0, Num 7]]) ''order_id''
   = Inr (DataFrame
     [''order_id'', ''wait_time'', ''expected_wait_time'', ''delay_vs_expected'', ''order_status'',
      ''dim_is_five_star'', ''dim_is_one_star'', ''review_score'']
     [[Str ''o2'', Num (5 / 2), Num 1, Num (3 / 2), Str ''delivered'', Num 1, Num 0, Num 5],
      [Str ''o2'', Num (5 / 2), Num 1, Num (3 / 2), Str ''delivered'', Num 0, Num 1, Num 1],
      [Str ''o1'', Null, Num 4, Null, Str ''delivered'', Num 0, Num 0, Num 7]])"
  by (simp add: merge_left_eq DataFrame_def row_of_def fun_eq_iff)

lemma example_merge_items:
  "merge_left (DataFrame
     [''order_id'', ''wait_time'', ''expected_wait_time'', ''delay_vs_expected'', ''order_status'',
      ''dim_is_five_star'', ''dim_is_one_star'', ''review_score'']
     [[Str ''o2'', Num (5 / 2), Num 1, Num (3 / 2), Str ''delivered'', Num 1, Num 0, Num 5],
      [Str ''o2'', Num (5 / 2), Num 1, Num (3 / 2), Str ''delivered'', Num 0, Num 1, Num 1],
      [Str ''o1'', Null, Num 4, Null, Str ''delivered'', Num 0, Num 0, Num 7]])
    (DataFrame [''order_id'', ''number_of_items'']
     [[Str ''o1'', Num 2], [Str ''o2'', Num 2], [Str ''o3'', Num 1]]) ''order_id''
   = Inr (DataFrame
     [''order_id'', ''wait_time'', ''expected_wait_time'', ''delay_vs_expected'', ''order_status'',
      ''dim_is_five_star'', ''dim_is_one_star'', ''review_score'', ''number_of_items'']
     [[Str ''o2'', Num (5 / 2), Num 1, Num (3 / 2), Str ''delivered'', Num 1, Num 0, Num 5, Num 2],
      [Str ''o2'', Num (5 / 2), Num 1, Num (3 / 2), Str ''delivered'', Num 0, Num 1, Num 1, Num 2],
      [Str ''o1'', Null, Num 4, Null, Str ''delivered'', Num 0, Num 0, Num 7, Num 2]])"
  by (simp add: merge_left_eq DataFrame_def row_of_def fun_eq_iff)

lemma example_merge_sellers:
  "merge_left (DataFrame
     [''order_id'', ''wait_time'', ''expected_wait_time'', ''delay_vs_expected'', ''order_status'',
      ''dim_is_five_star'', ''dim_is_one_star'', ''review_score'', ''number_of_items'']
     [[Str ''o2'', Num (5 / 2), Num 1, Num (3 / 2), Str ''delivered'', Num 1, Num 0, Num 5, Num 2],
      [Str ''o2'', Num (5 / 2), Num 1, Num (3 / 2), Str ''delivered'', Num 0, Num 1, Num 1, Num 2],
      [Str ''o1'', Null, Num 4, Null, Str ''delivered'', Num 0, Num 0, Num 7, Num 2]])
    (DataFrame [''order_id'', ''number_of_sellers'']
     [[Str ''o1'', Num 2], [Str ''o2'', Num 2], [Str ''o3'', Num 1]]) ''order_id''
   = Inr (DataFrame
     [''order_id'', ''wait_time'', ''expected_wait_time'', ''delay_vs_expected'', ''order_status'',
      ''dim_is_five_star'', ''dim_is_one_star'', ''review_score'', ''number_of_items'', ''number_of_sellers'']
     [[Str ''o2'', Num (5 / 2), Num 1, Num (3 / 2), Str ''delivered'', Num 1, Num 0, Num 5, Num 2, Num 2],
      [Str ''o2'', Num (5 / 2), Num 1, Num (3 / 2), Str ''delivered'', Num 0, Num 1, Num 1, Num 2, Num 2],
      [Str ''o1'', Null, Num 4, Null, Str ''delivered'', Num 0, Num 0, Num 7, Num 2, Num 2]])"
  by (simp add: merge_left_eq DataFrame_def row_of_def fun_eq_iff)

lemma example_merge_price:
  "merge_left (DataFrame
     [''order_id'', ''wait_time'', ''expected_wait_time'', ''delay_vs_expected'', ''order_status'',
      ''dim_is_five_star'', ''dim_is_one_star'', ''review_score'', ''number_of_items'', ''number_of_sellers'']
     [[Str ''o2'', Num (5 / 2), Num 1, Num (3 / 2), Str ''delivered'', Num 1, Num 0, Num 5, Num 2, Num 2],
      [Str ''o2'', Num (5 / 2), Num 1, Num (3 / 2), Str ''delivered'', Num 0, Num 1, Num 1, Num 2, Num 2],
      [Str ''o1'', Null, Num 4, Null, Str ''delivered'', Num 0, Num 0, Num 7, Num 2, Num 2]])
    (DataFrame [''order_id'', ''price'', ''freight_value'']
     [[Str ''o1'', Num 30, Num 6], [Str ''o2'', Num 15, Num 3], [Str ''o3'', Num 7, Num 1]]) ''order_id''
   = Inr (DataFrame
     [''order_id'', ''wait_time'', ''expected_wait_time'', ''delay_vs_expected'', ''order_status'',
      ''dim_is_five_star'', ''dim_is_one_star'', ''review_score'', ''number_of_items'', ''number_of_sellers'', ''price'', ''freight_value'']
     [[Str ''o2'', Num (5 / 2), Num 1, Num (3 / 2), Str ''delivered'', Num 1, Num 0, Num 5, Num 2, Num 2, Num 15, Num 3],
      [Str ''o2'', Num (5 / 2), Num 1, Num (3 / 2), Str ''delivered'', Num 0, Num 1, Num 1, Num 2, Num 2, Num 15, Num 3],
      [Str ''o1'', Null, Num 4, Null, Str ''delivered'', Num 0, Num 0, Num 7, Num 2, Num 2, Num 30, Num 6]])"
  by (simp add: merge_left_eq DataFrame_def row_of_def fun_eq_iff)

lemma example_merge_distance:
  "merge_left (DataFrame
     [''order_id'', ''wait_time'', ''expected_wait_time'', ''delay_vs_expected'', ''order_status'',
      ''dim_is_five_star'', ''dim_is_one_star'', ''review_score'', ''number_of_items'', ''number_of_sellers'', ''price'', ''freight_value'']
     [[Str ''o2'', Num (5 / 2), Num 1, Num (3 / 2), Str ''delivered'', Num 1, Num 0, Num 5, Num 2, Num 2, Num 15, Num 3],
      [Str ''o2'', Num (5 / 2), Num 1, Num (3 / 2), Str ''delivered'', Num 0, Num 1, Num 1, Num 2, Num 2, Num 15, Num 3],
      [Str ''o1'', Null, Num 4, Null, Str ''delivered'', Num 0, Num 0, Num 7, Num 2, Num 2, Num 30, Num 6]])
    (DataFrame
     [''order_id'', ''distance_seller_customer'']
     [[Str ''o1'', Num (6371 * pi / 2)], [Str ''o2'', Num 0], [Str ''o3'', Null]]) ''order_id''
   = Inr (DataFrame
     [''order_id'', ''wait_time'', ''expected_wait_time'', ''delay_vs_expected'', ''order_status'',
      ''dim_is_five_star'', ''dim_is_one_star'', ''review_score'', ''number_of_items'', ''number_of_sellers'', ''price'', ''freight_value'', ''distance_seller_customer'']
     [[Str ''o2'', Num (5 / 2), Num 1, Num (3 / 2), Str ''delivered'', Num 1, Num 0, Num 5, Num 2, Num 2, Num 15, Num 3, Num 0],
      [Str ''o2'', Num (5 / 2), Num 1, Num (3 / 2), Str ''delivered'', Num 0, Num 1, Num 1, Num 2, Num 2, Num 15, Num 3, Num 0],
      [Str ''o1'', Null, Num 4, Null, Str ''delivered'', Num 0, Num 0, Num 7, Num 2, Num 2, Num 30, Num 6, Num (6371 * pi / 2)]])"
  by (simp add: merge_left_eq DataFrame_def row_of_def fun_eq_iff)

lemma example_joined_table:
  "joined_features example_parse example True False = Inr (DataFrame
     [''order_id'', ''wait_time'', ''expected_wait_time'', ''delay_vs_expected'', ''order_status'',
      ''dim_is_five_star'', ''dim_is_one_star'', ''review_score'', ''number_of_items'', ''number_of_sellers'', ''price'', ''freight_value'']
     [[Str ''o2'', Num (5 / 2), Num 1, Num (3 / 2), Str ''delivered'', Num 1, Num 0, Num 5, Num 2, Num 2, Num 15, Num 3],
      [Str ''o2'', Num (5 / 2), Num 1, Num (3 / 2), Str ''delivered'', Num 0, Num 1, Num 1, Num 2, Num 2, Num 15, Num 3],
      [Str ''o1'', Null, Num 4, Null, Str ''delivered'', Num 0, Num 0, Num 7, Num 2, Num 2, Num 30, Num 6]])"
  unfolding joined_features_def example_wait_table example_review_table example_items_table example_sellers_table example_price_table bind_Inr
    example_merge_reviews example_merge_items example_merge_sellers example_merge_price if_False ..

lemma example_joined_table_distance:
  "joined_features example_parse example True True = Inr (DataFrame
     [''order_id'', ''wait_time'', ''expected_wait_time'', ''delay_vs_expected'', ''order_status'',
      ''dim_is_five_star'', ''dim_is_one_star'', ''review_score'', ''number_of_items'', ''number_of_sellers'', ''price'', ''freight_value'', ''distance_seller_customer'']
     [[Str ''o2'', Num (5 / 2), Num 1, Num (3 / 2), Str ''delivered'', Num 1, Num 0, Num 5, Num 2, Num 2, Num 15, Num 3, Num 0],
      [Str ''o2'', Num (5 / 2), Num 1, Num (3 / 2), Str ''delivered'', Num 0, Num 1, Num 1, Num 2, Num 2, Num 15, Num 3, Num 0],
      [Str ''o1'', Null, Num 4, Null, Str ''delivered'', Num 0, Num 0, Num 7, Num 2, Num 2, Num 30, Num 6, Num (6371 * pi / 2)]])"
  unfolding joined_features_def example_wait_table example_review_table example_items_table example_sellers_table example_price_table bind_Inr
    example_merge_reviews example_merge_items example_merge_sellers example_merge_price if_True example_distances example_merge_distance ..

lemma example_training_table:
  "get_training_data example_parse example True False = Inr (DataFrame
     [''order_id'', ''wait_time'', ''expected_wait_time'', ''delay_vs_expected'', ''order_status'',
      ''dim_is_five_star'', ''dim_is_one_star'', ''review_score'', ''number_of_items'', ''number_of_sellers'', ''price'', ''freight_value'']
     [[Str ''o2'', Num (5 / 2), Num 1, Num (3 / 2), Str ''delivered'', Num 1, Num 0, Num 5, Num 2, Num 2, Num 15, Num 3],
      [Str ''o2'', Num (5 / 2), Num 1, Num (3 / 2), Str ''delivered'', Num 0, Num 1, Num 1, Num 2, Num 2, Num 15, Num 3]])"
  unfolding get_training_data_joined example_joined_table bind_Inr
  by (simp add: select_ok training_columns_def rows_dropna DataFrame_def row_of_def project_def
        fun_eq_iff)

lemma example_training_table_distance:
  "get_training_data example_parse example True True = Inr (DataFrame
     [''order_id'', ''wait_time'', ''expected_wait_time'', ''delay_vs_expected'', ''order_status'',
      ''dim_is_five_star'', ''dim_is_one_star'', ''review_score'', ''number_of_items'', ''number_of_sellers'', ''price'', ''freight_value'', ''distance_seller_customer'']
     [[Str ''o2'', Num (5 / 2), Num 1, Num (3 / 2), Str ''delivered'', Num 1, Num 0, Num 5, Num 2, Num 2, Num 15, Num 3, Num 0],
      [Str ''o2'', Num (5 / 2), Num 1, Num (3 / 2), Str ''delivered'', Num 0, Num 1, Num 1, Num 2, Num 2, Num 15, Num 3, Num 0]])"
  unfolding get_training_data_joined example_joined_table_distance bind_Inr
  by (simp add: select_ok training_columns_def rows_dropna DataFrame_def row_of_def project_def
        fun_eq_iff)

lemma example_training_data:
  "\<exists>df. get_training_data example_parse example True False = Inr df
     \<and> cells df =
       [[Str ''o2'', Num (5 / 2), Num 1, Num (3 / 2), Str ''delivered'', Num 1, Num 0, Num 5,
         Num 2, Num 2, Num 15, Num 3],
        [Str ''o2'', Num (5 / 2), Num 1, Num (3 / 2), Str ''delivered'', Num 0, Num 1, Num 1,
         Num 2, Num 2, Num 15, Num 3]]"
  by (simp add: example_training_table cells_def DataFrame_def row_of_def)

lemma example_training_data_with_distance:
  "\<exists>df. get_training_data example_parse example True True = Inr df
     \<and> cells df =
       [[Str ''o2'', Num (5 / 2), Num 1, Num (3 / 2), Str ''delivered'', Num 1, Num 0, Num 5,
         Num 2, Num 2, Num 15, Num 3, Num 0],
        [Str ''o2'', Num (5 / 2), Num 1, Num (3 / 2), Str ''delivered'', Num 0, Num 1, Num 1,
         Num 2, Num 2, Num 15, Num 3, Num 0]]"
  by (simp add: example_training_table_distance cells_def DataFrame_def row_of_def)

text \<open>
  C1. Whatever the dataset store and the two flags, a table the assembler returns has no
  null cell: it is the table of all joined features without the rows that have a null
  in any column, and its columns are all the columns of that table.
\<close>

theorem training_data_no_nulls:
  assumes "get_training_data parse self is_delivered with_distance = Inr df"
  shows "(\<forall>r \<in> set (rows df). \<forall>c \<in> set (columns df). r c \<noteq> Null)
    \<and> (\<exists>j. joined_features parse self is_delivered with_distance = Inr j
          \<and> columns j = columns df
          \<and> rows df = map (project (columns df))
                (filter (\<lambda>r. \<forall>c \<in> set (columns j). r c \<noteq> Null) (rows j)))"
proof -
  from assms obtain j where j: "joined_features parse self is_delivered with_distance = Inr j"
    and df: "df = \<lparr>columns = training_columns with_distance,
                 rows = map (project (training_columns with_distance)) (rows (dropna j))\<rparr>"
    by (auto simp: get_training_data_iff)
  have c: "columns j = columns df"
    using columns_joined_features [OF j] df by simp
  have r: "rows df = map (project (columns df))
                (filter (\<lambda>r. \<forall>c \<in> set (columns j). r c \<noteq> Null) (rows j))"
    using df by (simp add: rows_dropna)
  have "\<forall>r \<in> set (rows df). \<forall>c \<in> set (columns df). r c \<noteq> Null"
    unfolding r c by (auto simp: project_def)
  with j c r show ?thesis by blast
qed

theorem training_data_no_nulls_witness:
  "(\<exists>df. get_training_data example_parse example True False = Inr df
      \<and> cells df =
       [[Str ''o2'', Num (5 / 2), Num 1, Num (3 / 2), Str ''delivered'', Num 1, Num 0, Num 5,
         Num 2, Num 2, Num 15, Num 3],
        [Str ''o2'', Num (5 / 2), Num 1, Num (3 / 2), Str ''delivered'', Num 0, Num 1, Num 1,
         Num 2, Num 2, Num 15, Num 3]]
      \<and> (\<forall>r \<in> set (rows df). \<forall>c \<in> set (columns df). r c \<noteq> Null))
   \<and> (\<exists>df. get_training_data example_parse example True True = Inr df
      \<and> cells df =
       [[Str ''o2'', Num (5 / 2), Num 1, Num (3 / 2), Str ''delivered'', Num 1, Num 0, Num 5,
         Num 2, Num 2, Num 15, Num 3, Num 0],
        [Str ''o2'', Num (5 / 2), Num 1, Num (3 / 2), Str ''delivered'', Num 0, Num 1, Num 1,
         Num 2, Num 2, Num 15, Num 3, Num 0]]
      \<and> (\<forall>r \<in> set (rows df). \<forall>c \<in> set (columns df). r c \<noteq> Null))"
proof -
  from example_training_data obtain df
    where df: "get_training_data example_parse example True False = Inr df"
      and c: "cells df =
       [[Str ''o2'', Num (5 / 2), Num 1, Num (3 / 2), Str ''delivered'', Num 1, Num 0, Num 5,
         Num 2, Num 2, Num 15, Num 3],
        [Str ''o2'', Num (5 / 2), Num 1, Num (3 / 2), Str ''delivered'', Num 0, Num 1, Num 1,
         Num 2, Num 2, Num 15, Num 3]]"
    by blast
  from example_training_data_with_distance obtain df'
    where df': "get_training_data example_parse example True True = Inr df'"
      and c': "cells df' =
       [[Str ''o2'', Num (5 / 2), Num 1, Num (3 / 2), Str ''delivered'', Num 1, Num 0, Num 5,
         Num 2, Num 2, Num 15, Num 3, Num 0],
        [Str ''o2'', Num (5 / 2), Num 1, Num (3 / 2), Str ''delivered'', Num 0, Num 1, Num 1,
         Num 2, Num 2, Num 15, Num 3, Num 0]]"
    by blast
  from training_data_no_nulls [OF df] training_data_no_nulls [OF df'] df c df' c'
  show ?thesis by blast
qed

text \<open>
  C7. The columns of a table the assembler returns are, in this order, \<open>order_id\<close>,
  \<open>wait_time\<close>, \<open>expected_wait_time\<close>, \<open>delay_vs_expected\<close>, \<open>order_status\<close>,
  \<open>dim_is_five_star\<close>, \<open>dim_is_one_star\<close>, \<open>review_score\<close>, \<open>number_of_items\<close>,
  \<open>number_of_sellers\<close>, \<open>price\<close>, \<open>freight_value\<close>, followed by
  \<open>distance_seller_customer\<close> exactly when the distance flag is set.
\<close>

theorem training_columns_in_order:
  assumes "get_training_data parse self is_delivered with_distance = Inr df"
  shows "columns df =
        [''order_id'', ''wait_time'', ''expected_wait_time'', ''delay_vs_expected'',
         ''order_status'', ''dim_is_five_star'', ''dim_is_one_star'', ''review_score'',
         ''number_of_items'', ''number_of_sellers'', ''price'', ''freight_value'']
        @ (if with_distance then [''distance_seller_customer''] else [])"
  using assms by (auto simp: get_training_data_iff training_columns_def)

theorem training_columns_in_order_witness:
  "(\<exists>df. get_training_data example_parse example True False = Inr df
      \<and> columns df =
        [''order_id'', ''wait_time'', ''expected_wait_time'', ''delay_vs_expected'',
         ''order_status'', ''dim_is_five_star'', ''dim_is_one_star'', ''review_score'',
         ''number_of_items'', ''number_of_sellers'', ''price'', ''freight_value''])
   \<and> (\<exists>df. get_training_data example_parse example True True = Inr df
      \<and> columns df =
        [''order_id'', ''wait_time'', ''expected_wait_time'', ''delay_vs_expected'',
         ''order_status'', ''dim_is_five_star'', ''dim_is_one_star'', ''review_score'',
         ''number_of_items'', ''number_of_sellers'', ''price'', ''freight_value'',
         ''distance_seller_customer''])"
  using training_columns_in_order [OF example_training_table]
    training_columns_in_order [OF example_training_table_distance]
    example_training_table example_training_table_distance
  by simp

section \<open>Several reviews of one order\<close>

lemma merge_left_count:
  assumes "merge_left left right on = Inr df"
  shows "length (filter (\<lambda>x. x on = k) (rows df)) =
           length (filter (\<lambda>x. x on = k) (rows left))
           * max 1 (length (filter (\<lambda>x. x on = k) (rows right)))"
proof -
  let ?rc = "filter (\<lambda>c. c \<noteq> on) (columns right)"
  let ?g = "\<lambda>a. case filter (\<lambda>b. b on = a on) (rows right) of
                    [] \<Rightarrow> [\<lambda>c. if c \<in> set ?rc then Null else a c]
                  | ms \<Rightarrow> map (\<lambda>b c. if c \<in> set ?rc then b c else a c) ms"
  have rows: "rows df = concat (map ?g (rows left))"
    using assms by (simp add: merge_left_Inr_iff)
  have g: "length (filter (\<lambda>x. x on = k) (?g a)) =
             (if a on = k then max 1 (length (filter (\<lambda>x. x on = k) (rows right))) else 0)" for a
    by (cases "filter (\<lambda>b. b on = a on) (rows right)") (auto simp: filter_map comp_def)
  have "length (filter (\<lambda>x. x on = k) (concat (map ?g as))) =
          length (filter (\<lambda>x. x on = k) as)
          * max 1 (length (filter (\<lambda>x. x on = k) (rows right)))" for as
    by (induction as) (simp_all add: g del: max.absorb1 max.absorb2 max.absorb3 max.absorb4)
  then show ?thesis
    unfolding rows .
qed

lemma groupby_agg_unique:
  "length (filter (\<lambda>r. r key = k) (rows (groupby_agg df key aggs))) \<le> 1"
  by (simp add: groupby_agg_lookup)

lemma merge_left_groupby_count:
  assumes "merge_left left (groupby_agg df on aggs) on = Inr df'"
  shows "length (filter (\<lambda>x. x on = k) (rows df')) = length (filter (\<lambda>x. x on = k) (rows left))"
  using merge_left_count [OF assms, of k] groupby_agg_unique [of on k df aggs]
  by (simp add: max_def)


lemma joined_features_count:
  assumes "joined_features parse self d w = Inr j"
    and "data self ''orders'' = Some orders"
    and "data self ''order_reviews'' = Some reviews"
  shows "length (filter (\<lambda>r. r ''order_id'' = oid) (rows j)) =
           length (filter (\<lambda>r. r ''order_id'' = oid) (kept_orders orders d))
           * max 1 (length (filter (\<lambda>r. r ''order_id'' = oid) (rows reviews)))"
proof -
  from assms(1) obtain x1 f1 x2 f2 x3 f3 x4 f4 x5
    where 1: "get_wait_time parse self d = Inr x1"
      and 2: "get_review_score self = Inr f1"
      and 3: "merge_left x1 f1 ''order_id'' = Inr x2"
      and 4: "get_number_items self = Inr f2"
      and 5: "merge_left x2 f2 ''order_id'' = Inr x3"
      and 6: "get_number_sellers self = Inr f3"
      and 7: "merge_left x3 f3 ''order_id'' = Inr x4"
      and 8: "get_price_and_freight self = Inr f4"
      and 9: "merge_left x4 f4 ''order_id'' = Inr x5"
      and 10: "(if w then bind (get_distance_seller_customer self)
                   (\<lambda>f. merge_left x5 f ''order_id'') else Inr x5) = Inr j"
    unfolding joined_features_def by (elim bindE)
  have c1: "length (filter (\<lambda>r. r ''order_id'' = oid) (rows x1)) =
              length (filter (\<lambda>r. r ''order_id'' = oid) (kept_orders orders d))"
    using 1 assms(2) by (auto simp: get_wait_time_iff filter_map comp_def wait_row_order_id)
  have c2: "length (filter (\<lambda>r. r ''order_id'' = oid) (rows f1)) =
              length (filter (\<lambda>r. r ''order_id'' = oid) (rows reviews))"
    using 2 assms(3) by (auto simp: get_review_score_iff filter_map comp_def review_row_def)
  have c3: "length (filter (\<lambda>r. r ''order_id'' = oid) (rows x3)) =
              length (filter (\<lambda>r. r ''order_id'' = oid) (rows x2))"
    using 4 5 by (auto simp: get_number_items_iff merge_left_groupby_count)
  have c4: "length (filter (\<lambda>r. r ''order_id'' = oid) (rows x4)) =
              length (filter (\<lambda>r. r ''order_id'' = oid) (rows x3))"
    using 6 7 by (auto simp: get_number_sellers_iff merge_left_groupby_count)
  have c5: "length (filter (\<lambda>r. r ''order_id'' = oid) (rows x5)) =
              length (filter (\<lambda>r. r ''order_id'' = oid) (rows x4))"
    using 8 9 by (auto simp: get_price_and_freight_iff merge_left_groupby_count)
  have c6: "length (filter (\<lambda>r. r ''order_id'' = oid) (rows j)) =
              length (filter (\<lambda>r. r ''order_id'' = oid) (rows x5))"
  proof (cases w)
    case False
    with 10 show ?thesis by simp
  next
    case True
    with 10 show ?thesis
      by (auto simp: bind_Inr_iff get_distance_seller_customer_def merge_left_groupby_count)
  qed
  show ?thesis
    unfolding c6 c5 c4 c3 merge_left_count [OF 3] c1 c2 ..
qed

text \<open>
  C10. The review extractor returns one row per row of the reviews table, without
  removing duplicates. So for an order id that \<open>n\<close> kept orders and \<open>k \<ge> 1\<close> review rows
  carry, the joined table has \<open>n * k\<close> rows with that id before the row-drop (\<open>k\<close> rows
  for one order), and the returned table has as many as are free of nulls: all
  \<open>n * k\<close> when none of them has a null.
\<close>

theorem duplicate_reviews_multiply_rows:
  assumes "joined_features parse self is_delivered with_distance = Inr j"
    and "data self ''orders'' = Some orders"
    and "data self ''order_reviews'' = Some reviews"
    and "n = length (filter (\<lambda>r. r ''order_id'' = oid) (kept_orders orders is_delivered))"
    and "k = length (filter (\<lambda>r. r ''order_id'' = oid) (rows reviews))"
    and "1 \<le> k"
  shows "(\<exists>f. get_review_score self = Inr f \<and> length (rows f) = length (rows reviews)
           \<and> length (filter (\<lambda>r. r ''order_id'' = oid) (rows f)) = k)
    \<and> length (filter (\<lambda>r. r ''order_id'' = oid) (rows j)) = n * k
    \<and> (\<exists>df. get_training_data parse self is_delivered with_distance = Inr df
          \<and> length (filter (\<lambda>r. r ''order_id'' = oid) (rows df)) =
              length (filter (\<lambda>r. r ''order_id'' = oid \<and> (\<forall>c \<in> set (columns j). r c \<noteq> Null))
                        (rows j))
          \<and> ((\<forall>r \<in> set (rows j). r ''order_id'' = oid \<longrightarrow> (\<forall>c \<in> set (columns j). r c \<noteq> Null))
               \<longrightarrow> length (filter (\<lambda>r. r ''order_id'' = oid) (rows df)) = n * k))"
proof -
  from assms(1) obtain f where f: "get_review_score self = Inr f"
    unfolding joined_features_def by (elim bindE)
  have a: "length (rows f) = length (rows reviews)
           \<and> length (filter (\<lambda>r. r ''order_id'' = oid) (rows f)) = k"
    using f assms(3,5) by (auto simp: get_review_score_iff filter_map comp_def review_row_def)
  have b: "length (filter (\<lambda>r. r ''order_id'' = oid) (rows j)) = n * k"
    using joined_features_count [OF assms(1-3), of oid] assms(4-6) by (simp add: max_def)
  obtain df where df: "get_training_data parse self is_delivered with_distance = Inr df"
    and r: "rows df = map (project (training_columns with_distance)) (rows (dropna j))"
    using assms(1) by (auto simp: get_training_data_iff)
  have p: "project (training_columns with_distance) x ''order_id'' = x ''order_id''" for x
    by (simp add: project_def training_columns_def)
  have c: "length (filter (\<lambda>r. r ''order_id'' = oid) (rows df)) =
              length (filter (\<lambda>r. r ''order_id'' = oid \<and> (\<forall>c \<in> set (columns j). r c \<noteq> Null))
                        (rows j))"
    unfolding r by (simp add: filter_map comp_def p rows_dropna conj_commute)
  have d: "length (filter (\<lambda>r. r ''order_id'' = oid) (rows df)) = n * k"
    if "\<forall>r \<in> set (rows j). r ''order_id'' = oid \<longrightarrow> (\<forall>c \<in> set (columns j). r c \<noteq> Null)"
  proof -
    have "filter (\<lambda>r. r ''order_id'' = oid \<and> (\<forall>c \<in> set (columns j). r c \<noteq> Null)) (rows j)
          = filter (\<lambda>r. r ''order_id'' = oid) (rows j)"
      using that by (intro filter_cong) auto
    with b c show ?thesis by simp
  qed
  from f a b df c d show ?thesis by blast
qed


lemma example_joined_features:
  "\<exists>j. joined_features example_parse example True False = Inr j
     \<and> cells j =
       [[Str ''o2'', Num (5 / 2), Num 1, Num (3 / 2), Str ''delivered'', Num 1, Num 0, Num 5,
         Num 2, Num 2, Num 15, Num 3],
        [Str ''o2'', Num (5 / 2), Num 1, Num (3 / 2), Str ''delivered'', Num 0, Num 1, Num 1,
         Num 2, Num 2, Num 15, Num 3],
        [Str ''o1'', Null, Num 4, Null, Str ''delivered'', Num 0, Num 0, Num 7,
         Num 2, Num 2, Num 30, Num 6]]
     \<and> (\<forall>r \<in> set (rows j). r ''order_id'' = Str ''o2''
           \<longrightarrow> (\<forall>c \<in> set (columns j). r c \<noteq> Null))"
  by (simp add: example_joined_table cells_def DataFrame_def row_of_def)

theorem duplicate_reviews_multiply_rows_witness:
  "\<exists>j df. joined_features example_parse example True False = Inr j
     \<and> get_training_data example_parse example True False = Inr df
     \<and> length (filter (\<lambda>r. r ''order_id'' = Str ''o2'') (kept_orders example_orders True)) = 1
     \<and> length (filter (\<lambda>r. r ''order_id'' = Str ''o2'') (rows example_reviews)) = 2
     \<and> length (filter (\<lambda>r. r ''order_id'' = Str ''o2'') (rows j)) = 2
     \<and> length (filter (\<lambda>r. r ''order_id'' = Str ''o2'') (rows df)) = 2"
proof -
  from example_joined_features obtain j
    where j: "joined_features example_parse example True False = Inr j"
      and nn: "\<forall>r \<in> set (rows j). r ''order_id'' = Str ''o2''
                 \<longrightarrow> (\<forall>c \<in> set (columns j). r c \<noteq> Null)"
    by blast
  have o: "data example ''orders'' = Some example_orders"
    and r: "data example ''order_reviews'' = Some example_reviews"
    by (simp_all add: example_def)
  have n: "1 = length (filter (\<lambda>r. r ''order_id'' = Str ''o2'') (kept_orders example_orders True))"
    by (simp add: example_kept row_of_def)
  have k: "2 = length (filter (\<lambda>r. r ''order_id'' = Str ''o2'') (rows example_reviews))"
    by (simp add: example_reviews_def DataFrame_def row_of_def)
  from duplicate_reviews_multiply_rows [OF j o r n k] nn j n k
  show ?thesis by auto
qed

end
